theory Spec2Isabelle
  imports Main
begin

section \<open>Strings and character classes\<close>

text \<open>
  A header value is a byte string: the Fetch \<open>Headers.get\<close> of the request hands the
  wrappers one code unit below 256 per byte, so the JavaScript strings of this
  development are lists of 8-bit characters. The regular expression below names the
  space, the tab, the hyphen, the digits and the letters a to f; it treats every other
  code unit alike.
\<close>

definition char_range :: "char \<Rightarrow> char \<Rightarrow> char \<Rightarrow> bool" where
  "char_range lo hi c = ((of_char lo :: nat) \<le> of_char c \<and> (of_char c :: nat) \<le> of_char hi)"

text \<open>The class \<open>[ \t]\<close> of \<open>TRACEPARENT_REGEXP\<close>.\<close>

definition blank_char :: "char \<Rightarrow> bool" where
  "blank_char c = (c = CHR '' '' \<or> c = CHR 0x09)"

text \<open>The class \<open>[0-9a-f]\<close>.\<close>

definition hex_char :: "char \<Rightarrow> bool" where
  "hex_char c = (char_range CHR ''0'' CHR ''9'' c \<or> char_range CHR ''a'' CHR ''f'' c)"

text \<open>The class \<open>[01]\<close>.\<close>

definition flag_char :: "char \<Rightarrow> bool" where
  "flag_char c = (c = CHR ''0'' \<or> c = CHR ''1'')"

text \<open>
  The class \<open>\s\<close> of a JavaScript regular expression, on code units below 256: tab, line
  feed, vertical tab, form feed, carriage return, space and the no-break space.
\<close>

definition js_whitespace :: "char \<Rightarrow> bool" where
  "js_whitespace c =
     (c = CHR 0x09 \<or> c = CHR 0x0A \<or> c = CHR 0x0B \<or> c = CHR 0x0C \<or> c = CHR 0x0D \<or>
      c = CHR '' '' \<or> c = CHR 0xA0)"

section \<open>The traceparent regular expression (packages/utils/src/tracing.ts)\<close>

text \<open>
  The regular expression is matched the way a backtracking engine does: every piece maps
  the rest of the input to the list of its possible continuations, the preferred one
  first (a greedy quantifier tries the longer match first). A piece with a capture group
  also returns what the group captured, \<open>None\<close> when the group did not take part.
\<close>

text \<open>\<open>[class]*\<close>: the remainders after each possible run, the longest run first.\<close>

fun star_class :: "(char \<Rightarrow> bool) \<Rightarrow> string \<Rightarrow> string list" where
  "star_class P [] = [[]]"
| "star_class P (c # cs) = (if P c then star_class P cs @ [c # cs] else [c # cs])"

text \<open>\<open>([class]{n})?\<close>: the group of exactly \<open>n\<close> characters first, then the empty match.\<close>

definition opt_group :: "nat \<Rightarrow> (char \<Rightarrow> bool) \<Rightarrow> string \<Rightarrow> (string option \<times> string) list" where
  "opt_group n P s =
     (if n \<le> length s \<and> list_all P (take n s) then [(Some (take n s), drop n s)] else [])
     @ [(None, s)]"

text \<open>\<open>c?\<close>: the character first, then the empty match.\<close>

definition opt_char :: "char \<Rightarrow> string \<Rightarrow> string list" where
  "opt_char c s = (case s of [] \<Rightarrow> [s] | x # xs \<Rightarrow> if x = c then [xs, s] else [s])"

text \<open>
  All the ways the skeleton
  \<open>^W*([0-9a-f]{32})?-?([0-9a-f]{16})?-?([01])?W*$\<close> matches the whole of \<open>s\<close>, in
  the engine's order of preference; each is the triple of the three captures. \<open>W\<close> is the
  whitespace class.
\<close>

definition skeleton_matches ::
  "(char \<Rightarrow> bool) \<Rightarrow> string \<Rightarrow> (string option \<times> string option \<times> string option) list" where
  "skeleton_matches W s =
     List.bind (star_class W s) (\<lambda>r0.
     List.bind (opt_group 32 hex_char r0) (\<lambda>(g1, r1).
     List.bind (opt_char CHR ''-'' r1) (\<lambda>r2.
     List.bind (opt_group 16 hex_char r2) (\<lambda>(g2, r3).
     List.bind (opt_char CHR ''-'' r3) (\<lambda>r4.
     List.bind (opt_group 1 flag_char r4) (\<lambda>(g3, r5).
     List.bind (star_class W r5) (\<lambda>r6.
     if r6 = [] then [(g1, g2, g3)] else [])))))))"

text \<open>
  \<open>TRACEPARENT_REGEXP\<close>, lines 6 to 12: the whitespace class is \<open>[ \t]\<close>.
  \<open>traceparent.match(TRACEPARENT_REGEXP)\<close> is the first match, or null.
\<close>

definition TRACEPARENT_REGEXP ::
  "string \<Rightarrow> (string option \<times> string option \<times> string option) list" where
  "TRACEPARENT_REGEXP = skeleton_matches blank_char"

definition string_match ::
  "string \<Rightarrow> (string \<Rightarrow> 'm list) \<Rightarrow> 'm option" where
  "string_match s re = (case re s of [] \<Rightarrow> None | m # _ \<Rightarrow> Some m)"

record TraceparentData =
  traceId :: "string option"
  parentSampled :: "bool option"
  parentSpanId :: "string option"

text \<open>\<open>extractTraceparentData\<close>, lines 21 to 41; \<open>None\<close> is undefined.\<close>

definition extractTraceparentData :: "string \<Rightarrow> TraceparentData option" where
  "extractTraceparentData traceparent =
     (case string_match traceparent TRACEPARENT_REGEXP of
        None \<Rightarrow> None
      | Some (m1, m2, m3) \<Rightarrow>
          if traceparent = [] then None
          else Some \<lparr> traceId = m1,
                      parentSampled =
                        (if m3 = Some ''1'' then Some True
                         else if m3 = Some ''0'' then Some False
                         else None),
                      parentSpanId = m2 \<rparr>)"

subsection \<open>The format as the specification words it\<close>

text \<open>
  The text of an optional group, and what a group of \<open>n\<close> characters of a class may
  capture.
\<close>

definition group_text :: "string option \<Rightarrow> string" where
  "group_text g = (case g of None \<Rightarrow> [] | Some x \<Rightarrow> x)"

definition group_ok :: "nat \<Rightarrow> (char \<Rightarrow> bool) \<Rightarrow> string option \<Rightarrow> bool" where
  "group_ok n P g = (case g of None \<Rightarrow> True | Some x \<Rightarrow> length x = n \<and> list_all P x)"

definition opt_hyphen :: "bool \<Rightarrow> string" where
  "opt_hyphen b = (if b then ''-'' else [])"

text \<open>
  \<open>spec_skeleton W s t p f\<close>: the string \<open>s\<close> is whitespace of the class \<open>W\<close>, then
  the three individually optional groups \<open>t\<close> (32 lower-case hex characters), \<open>p\<close>
  (16 of them) and \<open>f\<close> (one digit 0 or 1), each pair separated by an optional hyphen,
  then whitespace.
\<close>

definition spec_skeleton ::
  "(char \<Rightarrow> bool) \<Rightarrow> string \<Rightarrow> string option \<Rightarrow> string option \<Rightarrow> string option \<Rightarrow> bool" where
  "spec_skeleton W s t p f =
     (\<exists>w1 h1 h2 w2.
        list_all W w1 \<and> list_all W w2 \<and>
        group_ok 32 hex_char t \<and> group_ok 16 hex_char p \<and> group_ok 1 flag_char f \<and>
        s = w1 @ group_text t @ opt_hyphen h1 @ group_text p @ opt_hyphen h2 @ group_text f @ w2)"

text \<open>The format of section 6 of the specification: the whitespace is \<open>\s\<close>.\<close>

definition spec_sentry_trace_format :: "string \<Rightarrow> bool" where
  "spec_sentry_trace_format s = (\<exists>t p f. spec_skeleton js_whitespace s t p f)"

text \<open>The format with the whitespace of the code, \<open>[ \t]\<close>.\<close>

definition traceparent_format :: "string \<Rightarrow> bool" where
  "traceparent_format s = (\<exists>t p f. spec_skeleton blank_char s t p f)"

definition sampled_of :: "string option \<Rightarrow> bool option" where
  "sampled_of f =
     (if f = Some ''1'' then Some True else if f = Some ''0'' then Some False else None)"


section \<open>The header injector (packages/utils/src/tracing.ts)\<close>

text \<open>
  A dynamic sampling context is an ordered mapping of string keys to string values; the
  empty object \<open>{}\<close> is the empty list.
\<close>

type_synonym DynamicSamplingContext = "(string \<times> string) list"

text \<open>
  A value of a plain header mapping, of type \<open>string[] | string | undefined\<close>. A key
  that is present with the value undefined is \<open>Some Undefined\<close>; a key that the
  object does not have is \<open>None\<close>.
\<close>

datatype header_value = Undefined | Str string | StrArray "string list"

text \<open>
  The three shapes of a header container: an instance of the \<open>Headers\<close> class (the
  pairs in the order they were appended), an array of pairs, a plain object.
\<close>

datatype headers_init =
    HeadersObject "(string \<times> string) list"
  | PairArray "(string \<times> string) list"
  | PlainObject "string \<rightharpoonup> header_value"

record Request =
  url :: string
  request_method :: string
  request_headers :: "(string \<times> string) list"

datatype fetch_input = UrlString string | RequestObject Request

text \<open>The init of a fetch call: its \<open>headers\<close> and its \<open>method\<close>.\<close>

record RequestInit =
  headers :: "headers_init option"
  init_method :: "string option"

type_synonym fetch_args = "fetch_input \<times> RequestInit option"

text \<open>
  A transaction, by what \<open>getDynamicSamplingContext()\<close> returns, and a span, by its id,
  what \<open>toTraceparent()\<close> returns and the transaction it belongs to.
\<close>

record Transaction =
  getDynamicSamplingContext :: DynamicSamplingContext

record Span =
  spanId :: string
  toTraceparent :: string
  transaction :: "Transaction option"

text \<open>
  The helpers of \<open>@sentry/utils\<close> that the wrappers import and whose code is not part
  of the sources at hand; every function below takes them as the parameter \<open>u\<close>.
\<close>

record sentry_utils =
  dynamicSamplingContextToSentryBaggageHeader :: "DynamicSamplingContext \<Rightarrow> string option"
  baggageHeaderToDynamicSamplingContext :: "string option \<Rightarrow> DynamicSamplingContext option"
  getFetchUrl :: "fetch_args \<Rightarrow> string"
  getFetchMethod :: "fetch_args \<Rightarrow> string"
  stripUrlQueryAndFragment :: "string \<Rightarrow> string"

text \<open>
  Modelled from the spec: the constant \<open>BAGGAGE_HEADER_NAME\<close> of \<open>./baggage\<close> is not
  under the sources; the header is named \<open>baggage\<close>.
\<close>

definition BAGGAGE_HEADER_NAME :: string where
  "BAGGAGE_HEADER_NAME = ''baggage''"

text \<open>\<open>Array.prototype.join\<close>.\<close>

fun join :: "string \<Rightarrow> string list \<Rightarrow> string" where
  "join sep [] = []"
| "join sep [x] = x"
| "join sep (x # y # ys) = x @ sep @ join sep (y # ys)"

text \<open>
  The statement \<open>if (sentryBaggageHeader) list.push(sentryBaggageHeader)\<close>: what is
  pushed; undefined and the empty string are falsy.
\<close>

definition push_if_truthy :: "string option \<Rightarrow> string list" where
  "push_if_truthy v = (case v of None \<Rightarrow> [] | Some x \<Rightarrow> if x \<noteq> [] then [x] else [])"

text \<open>A value of type \<open>string | undefined\<close> stored under a key of a plain object.\<close>

definition stored :: "string option \<Rightarrow> header_value" where
  "stored v = (case v of None \<Rightarrow> Undefined | Some x \<Rightarrow> Str x)"

text \<open>\<open>addTracingHeadersToFetchRequest\<close>, lines 57 to 119.\<close>

definition addTracingHeadersToFetchRequest ::
  "sentry_utils \<Rightarrow> fetch_input \<Rightarrow> DynamicSamplingContext \<Rightarrow> Span \<Rightarrow> RequestInit \<Rightarrow> headers_init" where
  "addTracingHeadersToFetchRequest u request dsc span options =
     (let sentryBaggageHeader = dynamicSamplingContextToSentryBaggageHeader u dsc;
          sentryTraceHeader = toTraceparent span;
          hs = (case request of
                  RequestObject r \<Rightarrow> Some (HeadersObject (request_headers r))
                | UrlString _ \<Rightarrow> headers options)
      in case hs of
           None \<Rightarrow>
             PlainObject [''sentry-trace'' \<mapsto> Str sentryTraceHeader,
                          ''baggage'' \<mapsto> stored sentryBaggageHeader]
         | Some (HeadersObject h) \<Rightarrow>
             HeadersObject
               ((h @ [(''sentry-trace'', sentryTraceHeader)])
                @ map (Pair BAGGAGE_HEADER_NAME) (push_if_truthy sentryBaggageHeader))
         | Some (PairArray h) \<Rightarrow>
             PairArray
               ((h @ [(''sentry-trace'', sentryTraceHeader)])
                @ map (Pair BAGGAGE_HEADER_NAME) (push_if_truthy sentryBaggageHeader))
         | Some (PlainObject h) \<Rightarrow>
             (let existingBaggageHeader =
                    (case h ''baggage'' of None \<Rightarrow> Undefined | Some v \<Rightarrow> v);
                  newBaggageHeaders =
                    (case existingBaggageHeader of
                       StrArray xs \<Rightarrow> xs
                     | Str x \<Rightarrow> if x \<noteq> [] then [x] else []
                     | Undefined \<Rightarrow> [])
                    @ push_if_truthy sentryBaggageHeader
              in PlainObject
                   (h(''sentry-trace'' \<mapsto> Str sentryTraceHeader,
                      ''baggage'' \<mapsto>
                        (if length newBaggageHeaders > 0
                         then Str (join '','' newBaggageHeaders) else Undefined)))))"

section \<open>What the wrappers act on\<close>

text \<open>A thrown JavaScript value: a primitive, an object (by reference), or the wrapper
  object of a primitive (\<open>new String("x")\<close>).\<close>

datatype primitive = PUndefined | PNull | PBoolean bool | PNumber int | PString string

datatype js_value = Primitive primitive | Object nat | Wrapper primitive

text \<open>How a call ends: it returns (a promise resolves), or it throws (a promise rejects).\<close>

datatype 'a outcome = Returned 'a | Threw js_value

record Mechanism =
  mechanism_type :: string
  handled :: bool
  data_function :: string

record Event =
  exception :: js_value
  mechanism :: "Mechanism option"

record TransactionMetadata =
  source :: string
  dynamicSamplingContext :: "DynamicSamplingContext option"

text \<open>The context object handed to \<open>trace\<close>; the three fields of the traceparent data
  are the ones the spread \<open>...traceparentData\<close> copies.\<close>

record TransactionContext = TraceparentData +
  op :: string
  name :: string
  status :: "string option"
  metadata :: "TransactionMetadata option"

datatype span_status = ContextStatus "string option" | HttpStatus nat | InternalError

record SpanRecord =
  span_context :: TransactionContext
  span_status :: span_status

record Breadcrumb =
  breadcrumb_type :: string
  category :: string
  level :: "string option"
  data_method :: string
  data_url :: string
  data_status_code :: "nat option"
  hint_data :: "js_value option"

record Response =
  response_status :: nat

text \<open>
  The state the wrappers act on: the exceptions reported to the monitoring client, the
  spans opened, the breadcrumbs recorded, the requests sent over the network, and the span
  that \<open>getCurrentHub().getScope().getSpan()\<close> returns.
\<close>

record world =
  captured :: "Event list"
  spans :: "SpanRecord list"
  breadcrumbs :: "Breadcrumb list"
  requests :: "fetch_args list"
  scope_span :: "Span option"

type_synonym fetch_fn = "fetch_args \<Rightarrow> world \<Rightarrow> Response outcome \<times> world"

text \<open>
  The fetch of the platform: it sends the request, which the state records, and settles
  with the answer \<open>respond\<close> gives.
\<close>

definition network_fetch :: "(fetch_args \<Rightarrow> Response outcome) \<Rightarrow> fetch_fn" where
  "network_fetch respond args w = (respond args, w\<lparr> requests := requests w @ [args] \<rparr>)"

text \<open>
  Modelled from the spec: \<open>objectify\<close> of \<open>@sentry/utils\<close> is not under the sources. It
  wraps a primitive in its object equivalent and returns an object as it is.
\<close>

definition objectify :: "js_value \<Rightarrow> js_value" where
  "objectify wat = (case wat of Primitive v \<Rightarrow> Wrapper v | _ \<Rightarrow> wat)"

text \<open>
  Modelled from the spec: \<open>addExceptionMechanism\<close> of \<open>@sentry/utils\<close> is not under the
  sources. It tags the event with the mechanism.
\<close>

definition addExceptionMechanism :: "Event \<Rightarrow> Mechanism \<Rightarrow> Event" where
  "addExceptionMechanism ev m = ev\<lparr> mechanism := Some m \<rparr>"

text \<open>
  Modelled from the spec: \<open>captureException(error, contextMutator)\<close> of the monitoring
  client is not under the sources. It reports the error once: the mutator receives the
  scope (its event processors), and the processors of the scope it returns run on the
  event before it is recorded.
\<close>

definition captureException ::
  "js_value \<Rightarrow> ((Event \<Rightarrow> Event) list \<Rightarrow> (Event \<Rightarrow> Event) list) \<Rightarrow> world \<Rightarrow> world" where
  "captureException e mutator w =
     (let scope = mutator [];
          ev = foldl (\<lambda>x processor. processor x) \<lparr> exception = e, mechanism = None \<rparr> scope
      in w\<lparr> captured := captured w @ [ev] \<rparr>)"

text \<open>
  Modelled from the spec: \<open>setHttpStatus\<close> of a span is not under the sources. It sets the
  outcome status of the span from the status code of the response. A span is known by its
  position among the spans opened.
\<close>

definition set_span_status :: "nat \<Rightarrow> span_status \<Rightarrow> world \<Rightarrow> world" where
  "set_span_status i st w =
     (if i < length (spans w)
      then w\<lparr> spans := (spans w)[i := (spans w ! i)\<lparr> span_status := st \<rparr>] \<rparr>
      else w)"

definition setHttpStatus :: "nat \<Rightarrow> nat \<Rightarrow> world \<Rightarrow> world" where
  "setHttpStatus i code w = set_span_status i (HttpStatus code) w"

text \<open>The state once a span is opened for a context: the span is the last one, and its
  status is the one of the context.\<close>

definition opened :: "TransactionContext \<Rightarrow> world \<Rightarrow> world" where
  "opened ctx w =
     w\<lparr> spans := spans w @ [\<lparr> span_context = ctx, span_status = ContextStatus (status ctx) \<rparr>] \<rparr>"

text \<open>
  Modelled from the spec: \<open>trace(context, callback, onError)\<close> of \<open>@sentry/core\<close> is not
  under the sources (section 6 names it \<open>startSpan(description, work, onError)\<close>). It
  opens a span for the context and runs the callback on it. When the callback throws,
  the span is finalized with an error status, the error goes to \<open>onError\<close>, and the
  (objectified) error that \<open>onError\<close> returns is thrown again; without an \<open>onError\<close> the
  error is thrown again untouched.
\<close>

definition trace ::
  "TransactionContext \<Rightarrow> (nat \<Rightarrow> world \<Rightarrow> 'a outcome \<times> world) \<Rightarrow>
   (js_value \<Rightarrow> world \<Rightarrow> js_value \<times> world) option \<Rightarrow> world \<Rightarrow> 'a outcome \<times> world" where
  "trace ctx callback onError w =
     (let i = length (spans w);
          w1 = opened ctx w
      in case callback i w1 of
           (Returned v, w2) \<Rightarrow> (Returned v, w2)
         | (Threw e, w2) \<Rightarrow>
             (let w3 = set_span_status i InternalError w2
              in case onError of
                   None \<Rightarrow> (Threw e, w3)
                 | Some handler \<Rightarrow> (case handler e w3 of (e', w4) \<Rightarrow> (Threw e', w4))))"


section \<open>The request wrapper (packages/sveltekit/src/server/index.ts, the part of handle.ts)\<close>

text \<open>\<open>sendErrorToSentry\<close> of the server, lines 70 to 91.\<close>

definition sendErrorToSentry_handle :: "js_value \<Rightarrow> world \<Rightarrow> js_value \<times> world" where
  "sendErrorToSentry_handle e w =
     (let objectifiedErr = objectify e
      in (objectifiedErr,
          captureException objectifiedErr
            (\<lambda>scope. scope @
               [\<lambda>ev. addExceptionMechanism ev
                  \<lparr> mechanism_type = ''sveltekit'', handled = False, data_function = ''handle'' \<rparr>])
            w))"

text \<open>
  The event of an inbound request: \<open>event.request.method\<close>, \<open>event.request.headers.get\<close>
  (null is \<open>None\<close>), \<open>event.route.id\<close> (a string or null) and \<open>event.url.pathname\<close>.
\<close>

record RequestEvent =
  event_request_method :: string
  event_request_headers_get :: "string \<Rightarrow> string option"
  event_route_id :: "string option"
  event_url_pathname :: string

text \<open>A value of type \<open>string | null\<close> inside a template literal.\<close>

definition template_string :: "string option \<Rightarrow> string" where
  "template_string v = (case v of None \<Rightarrow> ''null'' | Some x \<Rightarrow> x)"

text \<open>The traceparent data of the request, line 126.\<close>

definition sentryHandle_traceparentData :: "RequestEvent \<Rightarrow> TraceparentData option" where
  "sentryHandle_traceparentData event =
     (case event_request_headers_get event ''sentry-trace'' of
        None \<Rightarrow> None
      | Some sentryTraceHeader \<Rightarrow>
          if sentryTraceHeader \<noteq> [] then extractTraceparentData sentryTraceHeader else None)"

text \<open>The context that \<open>sentryHandle\<close> hands to \<open>trace\<close>, lines 124 to 139.\<close>

definition sentryHandle_context :: "sentry_utils \<Rightarrow> RequestEvent \<Rightarrow> TransactionContext" where
  "sentryHandle_context u event =
     (let baggageHeader = event_request_headers_get event ''baggage'';
          traceparentData = sentryHandle_traceparentData event;
          dsc = baggageHeaderToDynamicSamplingContext u baggageHeader
      in \<lparr> traceId = (case traceparentData of None \<Rightarrow> None | Some d \<Rightarrow> traceId d),
           parentSampled = (case traceparentData of None \<Rightarrow> None | Some d \<Rightarrow> parentSampled d),
           parentSpanId = (case traceparentData of None \<Rightarrow> None | Some d \<Rightarrow> parentSpanId d),
           op = ''http.server'',
           name = event_request_method event @ '' '' @ template_string (event_route_id event),
           status = Some ''ok'',
           metadata = Some
             \<lparr> source = ''route'',
               dynamicSamplingContext =
                 (if traceparentData \<noteq> None \<and> dsc = None then Some [] else dsc) \<rparr> \<rparr>)"

text \<open>
  \<open>sentryHandle\<close>, lines 122 to 150; \<open>resolve\<close> is the wrapped resolver. The domain
  that the call is bound to (\<open>domain.create().bind\<close>) has no counterpart in this
  sequential model, and the \<open>transformPageChunk\<close> option handed to the resolver is left
  out.
\<close>

definition sentryHandle ::
  "sentry_utils \<Rightarrow> RequestEvent \<Rightarrow> (RequestEvent \<Rightarrow> world \<Rightarrow> Response outcome \<times> world) \<Rightarrow>
   world \<Rightarrow> Response outcome \<times> world" where
  "sentryHandle u event resolve w =
     trace (sentryHandle_context u event)
       (\<lambda>span w1.
          case resolve event w1 of
            (Returned res, w2) \<Rightarrow> (Returned res, setHttpStatus span (response_status res) w2)
          | (Threw e, w2) \<Rightarrow> (Threw e, w2))
       (Some sendErrorToSentry_handle) w"

section \<open>The load and fetch wrappers (packages/sveltekit/src/client/load.ts)\<close>

text \<open>\<open>sendErrorToSentry\<close> of the client, lines 17 to 38.\<close>

definition sendErrorToSentry_load :: "js_value \<Rightarrow> world \<Rightarrow> js_value \<times> world" where
  "sendErrorToSentry_load e w =
     (let objectifiedErr = objectify e
      in (objectifiedErr,
          captureException objectifiedErr
            (\<lambda>scope. scope @
               [\<lambda>ev. addExceptionMechanism ev
                  \<lparr> mechanism_type = ''sveltekit'', handled = False, data_function = ''load'' \<rparr>])
            w))"

text \<open>\<open>String.prototype.startsWith\<close> and \<open>String.prototype.includes\<close>.\<close>

fun starts_with :: "string \<Rightarrow> string \<Rightarrow> bool" where
  "starts_with s [] = True"
| "starts_with [] (p # ps) = False"
| "starts_with (c # cs) (p # ps) = (c = p \<and> starts_with cs ps)"

fun string_includes :: "string \<Rightarrow> string \<Rightarrow> bool" where
  "string_includes [] p = (p = [])"
| "string_includes (c # cs) p = (starts_with (c # cs) p \<or> string_includes cs p)"

text \<open>
  An entry of \<open>tracePropagationTargets\<close>: a string, or a regular expression, which is
  given by what its \<open>test\<close> answers.
\<close>

datatype pattern = StringPattern string | RegExpPattern "string \<Rightarrow> bool"

text \<open>
  Modelled from the spec: \<open>stringMatchesSomePattern\<close> of \<open>@sentry/utils\<close> is not under
  the sources. The url matches the allow-list when it matches one of its patterns: a
  string pattern when the url contains it (so that \<open>localhost\<close> admits
  \<open>https://localhost/api\<close>, section 8), a regular expression when it tests true.
\<close>

fun isMatchingPattern :: "string \<Rightarrow> pattern \<Rightarrow> bool" where
  "isMatchingPattern v (StringPattern p) = string_includes v p"
| "isMatchingPattern v (RegExpPattern r) = r v"

definition stringMatchesSomePattern :: "string \<Rightarrow> pattern list \<Rightarrow> bool" where
  "stringMatchesSomePattern testString patterns = list_ex (isMatchingPattern testString) patterns"

text \<open>The regular expression \<open>/^\//\<close> of line 122.\<close>

definition root_relative :: "string \<Rightarrow> bool" where
  "root_relative v = starts_with v ''/''"

definition default_tracePropagationTargets :: "pattern list" where
  "default_tracePropagationTargets = [StringPattern ''localhost'', RegExpPattern root_relative]"

record BrowserTracingOptions =
  traceFetch :: bool
  shouldCreateSpanForRequest :: "(string \<Rightarrow> bool) option"
  tracePropagationTargets :: "pattern list option"

text \<open>
  The client, by what \<open>getIntegrationById\<close> finds: the options of the BrowserTracing
  integration, and the \<open>fetch\<close> option of the breadcrumbs integration; \<open>None\<close> when the
  integration is not installed.
\<close>

record Client =
  browserTracingOptions :: "BrowserTracingOptions option"
  breadcrumbs_options_fetch :: "bool option"

text \<open>Lines 109 to 124.\<close>

definition shouldTraceFetch :: "Client \<Rightarrow> bool" where
  "shouldTraceFetch client =
     (case browserTracingOptions client of None \<Rightarrow> False | Some opts \<Rightarrow> traceFetch opts)"

definition shouldAddFetchBreadcrumbs :: "Client \<Rightarrow> bool" where
  "shouldAddFetchBreadcrumbs client =
     (case breadcrumbs_options_fetch client of None \<Rightarrow> False | Some b \<Rightarrow> b)"

definition shouldCreateSpan :: "Client \<Rightarrow> string \<Rightarrow> bool" where
  "shouldCreateSpan client rawUrl =
     (case browserTracingOptions client of
        None \<Rightarrow> shouldTraceFetch client
      | Some opts \<Rightarrow>
          (case shouldCreateSpanForRequest opts of
             Some predicate \<Rightarrow> predicate rawUrl
           | None \<Rightarrow> shouldTraceFetch client))"

definition configured_targets :: "Client \<Rightarrow> pattern list" where
  "configured_targets client =
     (case browserTracingOptions client of
        None \<Rightarrow> default_tracePropagationTargets
      | Some opts \<Rightarrow>
          (case tracePropagationTargets opts of
             None \<Rightarrow> default_tracePropagationTargets
           | Some targets \<Rightarrow> targets))"

definition shouldAttachHeaders :: "Client \<Rightarrow> string \<Rightarrow> bool" where
  "shouldAttachHeaders client rawUrl =
     (shouldTraceFetch client \<and> stringMatchesSomePattern rawUrl (configured_targets client))"

text \<open>
  \<open>addFetchBreadcrumbs\<close>, lines 197 to 244, once the promise has settled; the two
  timestamps of the hint are left out.
\<close>

definition addFetchBreadcrumbs ::
  "Response outcome \<Rightarrow> string \<Rightarrow> string \<Rightarrow> world \<Rightarrow> world" where
  "addFetchBreadcrumbs fetchResult meth sanitizedUrl w =
     (case fetchResult of
        Returned response \<Rightarrow>
          w\<lparr> breadcrumbs := breadcrumbs w @
               [\<lparr> breadcrumb_type = ''http'', category = ''fetch'', level = None,
                   data_method = meth, data_url = sanitizedUrl,
                   data_status_code = Some (response_status response), hint_data = None \<rparr>] \<rparr>
      | Threw err \<Rightarrow>
          w\<lparr> breadcrumbs := breadcrumbs w @
               [\<lparr> breadcrumb_type = ''http'', category = ''fetch'', level = Some ''error'',
                   data_method = meth, data_url = sanitizedUrl,
                   data_status_code = None, hint_data = Some err \<rparr>] \<rparr>)"

text \<open>The copy \<open>{ ...init }\<close> of line 139.\<close>

definition spread_init :: "RequestInit option \<Rightarrow> RequestInit" where
  "spread_init init = (case init of None \<Rightarrow> \<lparr> headers = None, init_method = None \<rparr> | Some i \<Rightarrow> i)"

text \<open>The init that the original fetch receives, lines 139 to 161.\<close>

definition patched_init :: "sentry_utils \<Rightarrow> Client \<Rightarrow> fetch_args \<Rightarrow> world \<Rightarrow> RequestInit" where
  "patched_init u client args w =
     (let rawUrl = getFetchUrl u args;
          patchedInit = spread_init (snd args);
          attachHeaders = shouldAttachHeaders client rawUrl;
          attachSpan = shouldCreateSpan client rawUrl
      in case scope_span w of
           None \<Rightarrow> patchedInit
         | Some activeSpan \<Rightarrow>
             (case transaction activeSpan of
                None \<Rightarrow> patchedInit
              | Some activeTransaction \<Rightarrow>
                  if attachHeaders \<and> attachSpan
                  then patchedInit\<lparr> headers := Some
                         (addTracingHeadersToFetchRequest u (fst args)
                            (getDynamicSamplingContext activeTransaction) activeSpan patchedInit) \<rparr>
                  else patchedInit))"

text \<open>A call of the proxy that \<open>instrumentSvelteKitFetch\<close> returns, lines 100 to 194.\<close>

definition instrumentSvelteKitFetch :: "sentry_utils \<Rightarrow> Client \<Rightarrow> fetch_fn \<Rightarrow> fetch_fn" where
  "instrumentSvelteKitFetch u client originalFetch args w =
     (let rawUrl = getFetchUrl u args;
          sanitizedUrl = stripUrlQueryAndFragment u rawUrl;
          meth = getFetchMethod u args
      in if string_includes rawUrl ''sentry_key'' \<and> meth = ''POST''
         then originalFetch args w
         else
           (let patchedInit = patched_init u client args w;
                attachSpan = shouldCreateSpan client rawUrl;
                settled =
                  (if attachSpan
                   then trace
                          \<lparr> traceId = None, parentSampled = None,
                            parentSpanId = map_option spanId (scope_span w),
                            op = ''http.client'', name = meth @ '' '' @ sanitizedUrl,
                            status = None, metadata = None \<rparr>
                          (\<lambda>span w1.
                             case originalFetch (fst args, Some patchedInit) w1 of
                               (Returned fetchResult, w2) \<Rightarrow>
                                 (Returned fetchResult,
                                  setHttpStatus span (response_status fetchResult) w2)
                             | (Threw e, w2) \<Rightarrow> (Threw e, w2))
                          None w
                   else originalFetch (fst args, Some patchedInit) w)
            in if shouldAddFetchBreadcrumbs client
               then (fst settled, addFetchBreadcrumbs (fst settled) meth sanitizedUrl (snd settled))
               else settled))"

text \<open>The event of a load call: \<open>event.route.id\<close>, \<open>event.url.pathname\<close> and
  \<open>event.fetch\<close>.\<close>

record LoadEvent =
  load_route_id :: "string option"
  load_url_pathname :: string
  load_fetch :: fetch_fn

text \<open>The context that \<open>wrapLoadWithSentry\<close> hands to \<open>trace\<close>, lines 63 to 72; null and
  the empty string are falsy.\<close>

definition wrapLoadWithSentry_context :: "LoadEvent \<Rightarrow> TransactionContext" where
  "wrapLoadWithSentry_context event =
     (let routeId = load_route_id event
      in \<lparr> traceId = None, parentSampled = None, parentSpanId = None,
           op = ''function.sveltekit.load'',
           name = (case routeId of
                     None \<Rightarrow> load_url_pathname event
                   | Some r \<Rightarrow> if r \<noteq> [] then r else load_url_pathname event),
           status = Some ''ok'',
           metadata = Some
             \<lparr> source = (case routeId of
                            None \<Rightarrow> ''url''
                          | Some r \<Rightarrow> if r \<noteq> [] then ''route'' else ''url''),
               dynamicSamplingContext = None \<rparr> \<rparr>)"

text \<open>A call of the proxy that \<open>wrapLoadWithSentry\<close> returns, lines 53 to 78.\<close>

definition wrapLoadWithSentry ::
  "sentry_utils \<Rightarrow> Client \<Rightarrow> (LoadEvent \<Rightarrow> world \<Rightarrow> 'a outcome \<times> world) \<Rightarrow>
   LoadEvent \<Rightarrow> world \<Rightarrow> 'a outcome \<times> world" where
  "wrapLoadWithSentry u client origLoad event w =
     (let patchedEvent = event\<lparr> load_fetch := instrumentSvelteKitFetch u client (load_fetch event) \<rparr>
      in trace (wrapLoadWithSentry_context event)
           (\<lambda>span w1. origLoad patchedEvent w1)
           (Some sendErrorToSentry_load) w)"


section \<open>The header injector on a container of any type\<close>

text \<open>
  The declared type of \<open>options.headers\<close> admits the three shapes above and undefined.
  At run time the value that line 72 binds to \<open>headers\<close> may be any JavaScript value:
  a primitive, or an object. An object that is neither an instance of \<open>Headers\<close> nor an
  array is taken by the last branch as a plain mapping, by its own enumerable
  properties.
\<close>

datatype any_headers = PrimitiveHeaders primitive | ObjectHeaders headers_init

text \<open>\<open>ToBoolean\<close> of a primitive: what the test \<open>!headers\<close> of line 75 negates.\<close>

definition js_truthy :: "primitive \<Rightarrow> bool" where
  "js_truthy p =
     (case p of
        PUndefined \<Rightarrow> False
      | PNull \<Rightarrow> False
      | PBoolean b \<Rightarrow> b
      | PNumber n \<Rightarrow> n \<noteq> 0
      | PString v \<Rightarrow> v \<noteq> [])"

datatype js_error = TypeError

text \<open>
  \<open>addTracingHeadersToFetchRequest\<close>, lines 57 to 119, on a container of any type;
  \<open>Inl\<close> is a thrown error. A falsy value takes the branch of line 75. A truthy
  primitive is no instance of \<open>Headers\<close> and no array, so it reaches the test
  \<open>'baggage' in headers\<close> of line 100, and the operator \<open>in\<close> throws a TypeError on a
  value that is not an object.
\<close>

definition addTracingHeadersToFetchRequest_any ::
  "sentry_utils \<Rightarrow> fetch_input \<Rightarrow> DynamicSamplingContext \<Rightarrow> Span \<Rightarrow> any_headers \<Rightarrow>
   js_error + headers_init" where
  "addTracingHeadersToFetchRequest_any u request dsc span options_headers =
     (let sentryBaggageHeader = dynamicSamplingContextToSentryBaggageHeader u dsc;
          sentryTraceHeader = toTraceparent span;
          hs = (case request of
                  RequestObject r \<Rightarrow> ObjectHeaders (HeadersObject (request_headers r))
                | UrlString _ \<Rightarrow> options_headers)
      in case hs of
           PrimitiveHeaders p \<Rightarrow>
             if \<not> js_truthy p
             then Inr (PlainObject [''sentry-trace'' \<mapsto> Str sentryTraceHeader,
                                    ''baggage'' \<mapsto> stored sentryBaggageHeader])
             else Inl TypeError
         | ObjectHeaders (HeadersObject h) \<Rightarrow>
             Inr (HeadersObject
               ((h @ [(''sentry-trace'', sentryTraceHeader)])
                @ map (Pair BAGGAGE_HEADER_NAME) (push_if_truthy sentryBaggageHeader)))
         | ObjectHeaders (PairArray h) \<Rightarrow>
             Inr (PairArray
               ((h @ [(''sentry-trace'', sentryTraceHeader)])
                @ map (Pair BAGGAGE_HEADER_NAME) (push_if_truthy sentryBaggageHeader)))
         | ObjectHeaders (PlainObject h) \<Rightarrow>
             (let existingBaggageHeader =
                    (case h ''baggage'' of None \<Rightarrow> Undefined | Some v \<Rightarrow> v);
                  newBaggageHeaders =
                    (case existingBaggageHeader of
                       StrArray xs \<Rightarrow> xs
                     | Str x \<Rightarrow> if x \<noteq> [] then [x] else []
                     | Undefined \<Rightarrow> [])
                    @ push_if_truthy sentryBaggageHeader
              in Inr (PlainObject
                   (h(''sentry-trace'' \<mapsto> Str sentryTraceHeader,
                      ''baggage'' \<mapsto>
                        (if length newBaggageHeaders > 0
                         then Str (join '','' newBaggageHeaders) else Undefined))))))"

text \<open>The value of the declared type as a value of any type: undefined, or the container.\<close>

definition declared_headers :: "headers_init option \<Rightarrow> any_headers" where
  "declared_headers v =
     (case v of None \<Rightarrow> PrimitiveHeaders PUndefined | Some hs \<Rightarrow> ObjectHeaders hs)"

section \<open>Notions the statements use\<close>

text \<open>The value stored under \<open>baggage\<close> for a combined list of entries: the entries
  joined by commas, undefined for the empty list.\<close>

definition comma_joined :: "string list \<Rightarrow> header_value" where
  "comma_joined entries = (if entries = [] then Undefined else Str (join '','' entries))"

text \<open>A header value is a string that contains the entry.\<close>

definition value_includes :: "header_value \<Rightarrow> string \<Rightarrow> bool" where
  "value_includes v e = (case v of Str x \<Rightarrow> string_includes x e | _ \<Rightarrow> False)"

text \<open>The test of line 134 of client/load.ts: a request of the SDK to its own ingestion.\<close>

definition internal_request :: "sentry_utils \<Rightarrow> fetch_args \<Rightarrow> bool" where
  "internal_request u args =
     (string_includes (getFetchUrl u args) ''sentry_key'' \<and> getFetchMethod u args = ''POST'')"

text \<open>
  The values that a header container holds under a name: of a \<open>Headers\<close> object or an
  array of pairs, the value of every pair of that name; of a plain mapping, the value of
  the key.
\<close>

definition header_entries :: "headers_init \<Rightarrow> string \<Rightarrow> header_value list" where
  "header_entries hs k =
     (case hs of
        HeadersObject ps \<Rightarrow> map (Str \<circ> snd) (filter (\<lambda>p. fst p = k) ps)
      | PairArray ps \<Rightarrow> map (Str \<circ> snd) (filter (\<lambda>p. fst p = k) ps)
      | PlainObject h \<Rightarrow> (case h k of None \<Rightarrow> [] | Some v \<Rightarrow> [v]))"

text \<open>The same for the headers of an init, which may have none.\<close>

definition sent_entries :: "headers_init option \<Rightarrow> string \<Rightarrow> header_value list" where
  "sent_entries sent k = (case sent of None \<Rightarrow> [] | Some hs \<Rightarrow> header_entries hs k)"

text \<open>One of the values contains the fragment.\<close>

definition some_value_includes :: "header_value list \<Rightarrow> string \<Rightarrow> bool" where
  "some_value_includes vs e = list_ex (\<lambda>v. value_includes v e) vs"

section \<open>Sample calls\<close>

text \<open>
  Concrete helpers, spans, clients and events, on which the theorems below are run. The
  helpers are simple stand-ins for the ones of \<open>@sentry/utils\<close>.
\<close>

definition sample_baggage_entry :: "string \<times> string \<Rightarrow> string" where
  "sample_baggage_entry kv = ''sentry-'' @ fst kv @ ''='' @ snd kv"

definition sample_baggage_header :: "DynamicSamplingContext \<Rightarrow> string option" where
  "sample_baggage_header dsc =
     (if dsc = [] then None else Some (join '','' (map sample_baggage_entry dsc)))"

definition sample_baggage_parse :: "string option \<Rightarrow> DynamicSamplingContext option" where
  "sample_baggage_parse h =
     (if h = Some ''sentry-release=1.0'' then Some [(''release'', ''1.0'')] else None)"

definition sample_fetch_url :: "fetch_args \<Rightarrow> string" where
  "sample_fetch_url args = (case fst args of UrlString v \<Rightarrow> v | RequestObject r \<Rightarrow> url r)"

definition sample_fetch_method :: "fetch_args \<Rightarrow> string" where
  "sample_fetch_method args =
     (case fst args of
        RequestObject r \<Rightarrow> request_method r
      | UrlString _ \<Rightarrow>
          (case snd args of
             None \<Rightarrow> ''GET''
           | Some i \<Rightarrow> (case init_method i of None \<Rightarrow> ''GET'' | Some m \<Rightarrow> m)))"

definition query_or_fragment_start :: "char \<Rightarrow> bool" where
  "query_or_fragment_start c = (c = CHR ''?'' \<or> c = CHR ''#'')"

definition sample_strip :: "string \<Rightarrow> string" where
  "sample_strip v = takeWhile (Not \<circ> query_or_fragment_start) v"

definition sample_utils :: sentry_utils where
  "sample_utils =
     \<lparr> dynamicSamplingContextToSentryBaggageHeader = sample_baggage_header,
       baggageHeaderToDynamicSamplingContext = sample_baggage_parse,
       getFetchUrl = sample_fetch_url,
       getFetchMethod = sample_fetch_method,
       stripUrlQueryAndFragment = sample_strip \<rparr>"

text \<open>A serializer whose fragment is the empty string.\<close>

definition empty_fragment :: "DynamicSamplingContext \<Rightarrow> string option" where
  "empty_fragment dsc = Some []"

definition empty_fragment_utils :: sentry_utils where
  "empty_fragment_utils =
     sample_utils\<lparr> dynamicSamplingContextToSentryBaggageHeader := empty_fragment \<rparr>"

definition sample_traceparent :: string where
  "sample_traceparent = ''0123456789abcdef0123456789abcdef-aaaabbbbccccdddd-1''"

definition sample_span :: Span where
  "sample_span =
     \<lparr> spanId = ''aaaabbbbccccdddd'', toTraceparent = sample_traceparent,
       transaction = Some \<lparr> getDynamicSamplingContext = [(''release'', ''1.0'')] \<rparr> \<rparr>"

definition sample_world :: world where
  "sample_world =
     \<lparr> captured = [], spans = [], breadcrumbs = [], requests = [],
       scope_span = Some sample_span \<rparr>"

definition localhost_client :: Client where
  "localhost_client =
     \<lparr> browserTracingOptions = Some
         \<lparr> traceFetch = True, shouldCreateSpanForRequest = None,
           tracePropagationTargets = Some [StringPattern ''localhost''] \<rparr>,
       breadcrumbs_options_fetch = Some True \<rparr>"

definition respond_ok :: "fetch_args \<Rightarrow> Response outcome" where
  "respond_ok args = Returned \<lparr> response_status = 200 \<rparr>"

definition no_init :: "RequestInit option" where
  "no_init = None"

definition post_init :: "RequestInit option" where
  "post_init = Some \<lparr> headers = None, init_method = Some ''POST'' \<rparr>"

text \<open>Inits whose headers are a plain mapping, an array of pairs and a \<open>Headers\<close> object.\<close>

definition plain_init :: "RequestInit option" where
  "plain_init =
     Some \<lparr> headers = Some (PlainObject [''x'' \<mapsto> Str ''1'', ''baggage'' \<mapsto> Str ''a=1'']),
            init_method = None \<rparr>"

definition pairs_init :: "RequestInit option" where
  "pairs_init =
     Some \<lparr> headers = Some (PairArray [(''x'', ''1'')]), init_method = None \<rparr>"

definition headers_object_init :: "RequestInit option" where
  "headers_object_init =
     Some \<lparr> headers = Some (HeadersObject [(''x'', ''1'')]), init_method = None \<rparr>"

text \<open>A resolver and a load function that throw the object \<open>Error("boom")\<close>, here the
  object 1, and ones that throw the string \<open>"boom"\<close>.\<close>

definition resolve_throws_object :: "RequestEvent \<Rightarrow> world \<Rightarrow> Response outcome \<times> world" where
  "resolve_throws_object event w = (Threw (Object 1), w)"

definition load_throws_string :: "LoadEvent \<Rightarrow> world \<Rightarrow> unit outcome \<times> world" where
  "load_throws_string event w = (Threw (Primitive (PString ''boom'')), w)"

definition continued_headers :: "string \<Rightarrow> string option" where
  "continued_headers k = (if k = ''sentry-trace'' then Some sample_traceparent else None)"

definition fresh_headers :: "string \<Rightarrow> string option" where
  "fresh_headers k = (if k = ''baggage'' then Some ''sentry-release=1.0'' else None)"

text \<open>A request that continues a trace and matched the route \<open>/blog/[slug]\<close>; a request
  with a baggage header only; a request that matched no route.\<close>

definition continued_event :: RequestEvent where
  "continued_event =
     \<lparr> event_request_method = ''GET'', event_request_headers_get = continued_headers,
       event_route_id = Some ''/blog/[slug]'', event_url_pathname = ''/blog/hello'' \<rparr>"

definition fresh_event :: RequestEvent where
  "fresh_event =
     \<lparr> event_request_method = ''GET'', event_request_headers_get = fresh_headers,
       event_route_id = Some ''/blog/[slug]'', event_url_pathname = ''/blog/hello'' \<rparr>"

definition unmatched_event :: RequestEvent where
  "unmatched_event =
     \<lparr> event_request_method = ''GET'', event_request_headers_get = fresh_headers,
       event_route_id = None, event_url_pathname = ''/nowhere'' \<rparr>"

definition sample_load_event :: LoadEvent where
  "sample_load_event =
     \<lparr> load_route_id = Some ''/blog/[slug]'', load_url_pathname = ''/blog/hello'',
       load_fetch = network_fetch respond_ok \<rparr>"


section \<open>The traceparent codec: what the regular expression accepts\<close>

lemma set_star_class: "set (star_class P s) = {r. \<exists>w. list_all P w \<and> s = w @ r}"
proof (induction s)
  case Nil
  then show ?case by auto
next
  case (Cons c cs)
  show ?case
  proof (rule set_eqI, rule iffI)
    fix r assume "r \<in> set (star_class P (c # cs))"
    then consider "P c" "r \<in> set (star_class P cs)" | "r = c # cs"
      by (auto split: if_splits)
    then show "r \<in> {r. \<exists>w. list_all P w \<and> c # cs = w @ r}"
    proof cases
      case 1
      then obtain w where "list_all P w" "cs = w @ r" using Cons.IH by auto
      then have "list_all P (c # w) \<and> c # cs = (c # w) @ r" using 1 by simp
      then show ?thesis by blast
    next
      case 2
      then have "list_all P [] \<and> c # cs = [] @ r" by simp
      then show ?thesis by blast
    qed
  next
    fix r assume "r \<in> {r. \<exists>w. list_all P w \<and> c # cs = w @ r}"
    then obtain w where w: "list_all P w" "c # cs = w @ r" by auto
    show "r \<in> set (star_class P (c # cs))"
    proof (cases w)
      case Nil
      then have "r = c # cs" using w by simp
      then show ?thesis by simp
    next
      case (Cons x xs)
      then have "x = c" "cs = xs @ r" "P c" "list_all P xs" using w by auto
      then have "r \<in> set (star_class P cs)" using Cons.IH by auto
      then show ?thesis using \<open>P c\<close> by simp
    qed
  qed
qed

lemma set_opt_group:
  "set (opt_group n P s) = {(g, r). group_ok n P g \<and> s = group_text g @ r}"
  by (auto simp: opt_group_def group_ok_def group_text_def split: option.splits)

lemma set_opt_char:
  "set (opt_char c s) = {r. \<exists>b. s = (if b then [c] else []) @ r}"
  by (auto simp: opt_char_def split: list.splits if_splits)

lemma in_list_bind: "y \<in> set (List.bind xs f) \<longleftrightarrow> (\<exists>x. x \<in> set xs \<and> y \<in> set (f x))"
  by (auto simp: set_list_bind)

lemma in_guard: "(y \<in> set (if b then [x] else [])) = (b \<and> y = x)"
  by (cases b) simp_all

lemma mem_skeleton_matches:
  "(t, p, f) \<in> set (skeleton_matches W s) \<longleftrightarrow>
   (\<exists>r0 r1 r2 r3 r4 r5.
      r0 \<in> set (star_class W s) \<and> (t, r1) \<in> set (opt_group 32 hex_char r0) \<and>
      r2 \<in> set (opt_char CHR ''-'' r1) \<and> (p, r3) \<in> set (opt_group 16 hex_char r2) \<and>
      r4 \<in> set (opt_char CHR ''-'' r3) \<and> (f, r5) \<in> set (opt_group 1 flag_char r4) \<and>
      [] \<in> set (star_class W r5))"
  unfolding skeleton_matches_def
  apply (simp only: in_list_bind in_guard split_paired_Ex prod.case prod.inject)
  apply (rule iffI)
   apply (elim exE conjE)
   apply (intro exI conjI)
         apply (assumption | simp)+
  apply (elim exE conjE)
  apply (intro exI conjI)
  apply (assumption | rule refl)+
  done

lemma skeleton_matches_sound:
  assumes "(t, p, f) \<in> set (skeleton_matches W s)"
  shows "spec_skeleton W s t p f"
proof -
  from assms obtain r0 r1 r2 r3 r4 r5 where
    a: "r0 \<in> set (star_class W s)" "(t, r1) \<in> set (opt_group 32 hex_char r0)"
       "r2 \<in> set (opt_char CHR ''-'' r1)" "(p, r3) \<in> set (opt_group 16 hex_char r2)"
       "r4 \<in> set (opt_char CHR ''-'' r3)" "(f, r5) \<in> set (opt_group 1 flag_char r4)"
       "[] \<in> set (star_class W r5)"
    unfolding mem_skeleton_matches by blast
  from a(1) obtain w1 where w1: "list_all W w1" "s = w1 @ r0" by (auto simp: set_star_class)
  from a(2) have t: "group_ok 32 hex_char t" "r0 = group_text t @ r1" by (auto simp: set_opt_group)
  from a(3) obtain h1 where h1: "r1 = opt_hyphen h1 @ r2" by (auto simp: set_opt_char opt_hyphen_def)
  from a(4) have p: "group_ok 16 hex_char p" "r2 = group_text p @ r3" by (auto simp: set_opt_group)
  from a(5) obtain h2 where h2: "r3 = opt_hyphen h2 @ r4" by (auto simp: set_opt_char opt_hyphen_def)
  from a(6) have f: "group_ok 1 flag_char f" "r4 = group_text f @ r5" by (auto simp: set_opt_group)
  from a(7) have w2: "list_all W r5" by (auto simp: set_star_class)
  have "s = w1 @ group_text t @ opt_hyphen h1 @ group_text p @ opt_hyphen h2 @ group_text f @ r5"
    using w1(2) t(2) h1 p(2) h2 f(2) by simp
  then show ?thesis
    unfolding spec_skeleton_def using w1(1) w2 t(1) p(1) f(1) by blast
qed

lemma skeleton_matches_complete:
  assumes "spec_skeleton W s t p f"
  shows "(t, p, f) \<in> set (skeleton_matches W s)"
proof -
  from assms obtain w1 h1 h2 w2 where
    d: "list_all W w1" "list_all W w2" "group_ok 32 hex_char t" "group_ok 16 hex_char p"
       "group_ok 1 flag_char f"
       "s = w1 @ group_text t @ opt_hyphen h1 @ group_text p @ opt_hyphen h2 @ group_text f @ w2"
    unfolding spec_skeleton_def by blast
  define r5 where "r5 = w2"
  define r4 where "r4 = group_text f @ r5"
  define r3 where "r3 = opt_hyphen h2 @ r4"
  define r2 where "r2 = group_text p @ r3"
  define r1 where "r1 = opt_hyphen h1 @ r2"
  define r0 where "r0 = group_text t @ r1"
  have 0: "r0 \<in> set (star_class W s)"
    using d(1,6) by (auto simp: set_star_class r0_def r1_def r2_def r3_def r4_def r5_def)
  have 1: "(t, r1) \<in> set (opt_group 32 hex_char r0)"
    using d(3) by (simp add: set_opt_group r0_def)
  have 2: "r2 \<in> set (opt_char CHR ''-'' r1)"
    by (auto simp: set_opt_char r1_def opt_hyphen_def)
  have 3: "(p, r3) \<in> set (opt_group 16 hex_char r2)"
    using d(4) by (simp add: set_opt_group r2_def)
  have 4: "r4 \<in> set (opt_char CHR ''-'' r3)"
    by (auto simp: set_opt_char r3_def opt_hyphen_def)
  have 5: "(f, r5) \<in> set (opt_group 1 flag_char r4)"
    using d(5) by (simp add: set_opt_group r4_def)
  have 6: "[] \<in> set (star_class W r5)"
    using d(2) by (auto simp: set_star_class r5_def)
  show ?thesis
    unfolding mem_skeleton_matches using 0 1 2 3 4 5 6 by blast
qed

lemma hex_not_blank: "hex_char c \<Longrightarrow> \<not> blank_char c"
  by (auto simp: hex_char_def blank_char_def char_range_def)

lemma flag_is_hex: "flag_char c \<Longrightarrow> hex_char c"
  by (auto simp: hex_char_def flag_char_def char_range_def)

lemma hyphen_not_hex: "\<not> hex_char CHR ''-''"
  by (simp add: hex_char_def char_range_def)

lemma filter_hex_blanks: "list_all blank_char w \<Longrightarrow> filter hex_char w = []"
  by (induction w) (auto dest: hex_not_blank)

lemma filter_hex_hyphen: "filter hex_char (opt_hyphen h) = []"
  by (simp add: opt_hyphen_def hyphen_not_hex)

lemma filter_hex_group: "group_ok n hex_char g \<Longrightarrow> filter hex_char (group_text g) = group_text g"
  by (cases g) (auto simp: group_ok_def group_text_def list_all_iff filter_id_conv)

lemma filter_hex_flag: "group_ok n flag_char g \<Longrightarrow> filter hex_char (group_text g) = group_text g"
  by (cases g) (auto simp: group_ok_def group_text_def list_all_iff flag_is_hex filter_id_conv)

lemma length_group_text: "group_ok n P g \<Longrightarrow> length (group_text g) = (if g = None then 0 else n)"
  by (cases g) (auto simp: group_ok_def group_text_def)

lemma skeleton_hex_digits:
  assumes "spec_skeleton blank_char s t p f"
  shows "filter hex_char s = group_text t @ group_text p @ group_text f"
proof -
  from assms obtain w1 h1 h2 w2 where
    d: "list_all blank_char w1" "list_all blank_char w2" "group_ok 32 hex_char t"
       "group_ok 16 hex_char p" "group_ok 1 flag_char f"
       "s = w1 @ group_text t @ opt_hyphen h1 @ group_text p @ opt_hyphen h2 @ group_text f @ w2"
    unfolding spec_skeleton_def by blast
  show ?thesis
    unfolding d(6)
    by (simp add: filter_hex_blanks[OF d(1)] filter_hex_blanks[OF d(2)] filter_hex_hyphen
        filter_hex_group[OF d(3)] filter_hex_group[OF d(4)] filter_hex_flag[OF d(5)])
qed

lemma group_text_inj:
  assumes "group_ok n P g" "group_ok n P g'" "0 < n" "group_text g = group_text g'"
  shows "g = g'"
  using assms by (cases g; cases g') (auto simp: group_ok_def group_text_def)

lemma skeleton_unique:
  assumes a: "spec_skeleton blank_char s t p f" and b: "spec_skeleton blank_char s t' p' f'"
  shows "t = t' \<and> p = p' \<and> f = f'"
proof -
  have g: "group_ok 32 hex_char t" "group_ok 16 hex_char p" "group_ok 1 flag_char f"
    "group_ok 32 hex_char t'" "group_ok 16 hex_char p'" "group_ok 1 flag_char f'"
    using a b unfolding spec_skeleton_def by blast+
  have e: "group_text t @ group_text p @ group_text f = group_text t' @ group_text p' @ group_text f'"
    using skeleton_hex_digits[OF a] skeleton_hex_digits[OF b] by simp
  note l = length_group_text[OF g(1)] length_group_text[OF g(2)] length_group_text[OF g(3)]
    length_group_text[OF g(4)] length_group_text[OF g(5)] length_group_text[OF g(6)]
  from e have "length (group_text t @ group_text p @ group_text f)
      = length (group_text t' @ group_text p' @ group_text f')" by simp
  then have n: "length (group_text t) = length (group_text t')"
    "length (group_text p) = length (group_text p')"
    unfolding length_append l by (auto split: if_splits)
  from e n have "group_text t = group_text t'" "group_text p = group_text p'"
    "group_text f = group_text f'" by auto
  then show ?thesis
    using group_text_inj[OF g(1) g(4)] group_text_inj[OF g(2) g(5)] group_text_inj[OF g(3) g(6)]
    by simp
qed


lemma string_match_TRACEPARENT:
  "string_match s TRACEPARENT_REGEXP = Some (t, p, f) \<longleftrightarrow> spec_skeleton blank_char s t p f"
proof
  assume "string_match s TRACEPARENT_REGEXP = Some (t, p, f)"
  then have "(t, p, f) \<in> set (skeleton_matches blank_char s)"
    by (auto simp: string_match_def TRACEPARENT_REGEXP_def split: list.splits)
  then show "spec_skeleton blank_char s t p f" by (rule skeleton_matches_sound)
next
  assume a: "spec_skeleton blank_char s t p f"
  then have m: "(t, p, f) \<in> set (skeleton_matches blank_char s)"
    by (rule skeleton_matches_complete)
  then obtain x xs where x: "skeleton_matches blank_char s = x # xs"
    by (cases "skeleton_matches blank_char s") auto
  obtain t' p' f' where c: "x = (t', p', f')" by (cases x) auto
  have "(t', p', f') \<in> set (skeleton_matches blank_char s)" using x c by simp
  then have "spec_skeleton blank_char s t' p' f'" by (rule skeleton_matches_sound)
  with a have "t = t' \<and> p = p' \<and> f = f'" by (rule skeleton_unique)
  then show "string_match s TRACEPARENT_REGEXP = Some (t, p, f)"
    using x c by (simp add: string_match_def TRACEPARENT_REGEXP_def)
qed

text \<open>
  Claim C1, as the code has it. For every string \<open>s\<close>, \<open>extractTraceparentData s\<close>
  returns data exactly when \<open>s\<close> is not empty and has the traceparent format, where
  whitespace is the space and the tab only: whitespace, then the three individually
  optional groups (32 lower-case hex characters, 16 lower-case hex characters, one digit
  0 or 1) with an optional hyphen between them, then whitespace. Otherwise it returns
  undefined. And whenever a non-empty \<open>s\<close> has the format with the groups \<open>t\<close>, \<open>p\<close>
  and \<open>f\<close>, the data returned has the trace id \<open>t\<close> and the parent span id \<open>p\<close>
  verbatim (absent when the group is), and \<open>parentSampled\<close> is true when \<open>f\<close> is
  \<open>1\<close>, false when it is \<open>0\<close>, absent when \<open>f\<close> is.
\<close>

theorem extractTraceparentData_format:
  "(extractTraceparentData s \<noteq> None \<longleftrightarrow> s \<noteq> [] \<and> traceparent_format s) \<and>
   (\<forall>t p f. s \<noteq> [] \<and> spec_skeleton blank_char s t p f \<longrightarrow>
      extractTraceparentData s =
        Some \<lparr> traceId = t, parentSampled = sampled_of f, parentSpanId = p \<rparr>)"
proof (intro conjI allI impI)
  show "extractTraceparentData s \<noteq> None \<longleftrightarrow> s \<noteq> [] \<and> traceparent_format s"
  proof (cases "string_match s TRACEPARENT_REGEXP")
    case None
    have "\<not> traceparent_format s"
    proof
      assume "traceparent_format s"
      then obtain t p f where "spec_skeleton blank_char s t p f"
        unfolding traceparent_format_def by blast
      then have "string_match s TRACEPARENT_REGEXP = Some (t, p, f)"
        by (simp only: string_match_TRACEPARENT)
      then show False using None by simp
    qed
    then show ?thesis using None by (simp add: extractTraceparentData_def)
  next
    case (Some m)
    obtain t p f where m: "m = (t, p, f)" by (cases m) auto
    have "string_match s TRACEPARENT_REGEXP = Some (t, p, f)" using Some m by simp
    then have "spec_skeleton blank_char s t p f"
      by (simp only: string_match_TRACEPARENT)
    then have "traceparent_format s" unfolding traceparent_format_def by blast
    then show ?thesis using Some m by (simp add: extractTraceparentData_def)
  qed
next
  fix t p f
  assume a: "s \<noteq> [] \<and> spec_skeleton blank_char s t p f"
  then have "string_match s TRACEPARENT_REGEXP = Some (t, p, f)"
    by (simp only: string_match_TRACEPARENT)
  then show "extractTraceparentData s =
      Some \<lparr> traceId = t, parentSampled = sampled_of f, parentSpanId = p \<rparr>"
    using a by (simp add: extractTraceparentData_def sampled_of_def)
qed

lemma sample_skeleton:
  "spec_skeleton blank_char ''0123456789abcdef0123456789abcdef-aaaabbbbccccdddd-1''
     (Some ''0123456789abcdef0123456789abcdef'') (Some ''aaaabbbbccccdddd'') (Some ''1'')"
  unfolding spec_skeleton_def
  apply (rule exI[of _ "[]"], rule exI[of _ True], rule exI[of _ True], rule exI[of _ "[]"])
  apply (simp add: group_ok_def group_text_def opt_hyphen_def hex_char_def flag_char_def char_range_def)
  done

text \<open>The theorem at a full traceparent string.\<close>

theorem extractTraceparentData_format_witness:
  "extractTraceparentData ''0123456789abcdef0123456789abcdef-aaaabbbbccccdddd-1'' =
     Some \<lparr> traceId = Some ''0123456789abcdef0123456789abcdef'', parentSampled = Some True,
            parentSpanId = Some ''aaaabbbbccccdddd'' \<rparr>"
  using extractTraceparentData_format
    [of "''0123456789abcdef0123456789abcdef-aaaabbbbccccdddd-1''"] sample_skeleton
  by (simp add: sampled_of_def)

lemma newline_skeleton:
  "spec_skeleton js_whitespace [CHR ''1'', CHR 0x0A] None None (Some ''1'')"
  unfolding spec_skeleton_def
  apply (rule exI[of _ "[]"], rule exI[of _ False], rule exI[of _ False], rule exI[of _ "[CHR 0x0A]"])
  apply (simp add: group_ok_def group_text_def opt_hyphen_def flag_char_def js_whitespace_def)
  done

text \<open>
  Claim C1 as stated, with the whitespace \<open>\s\<close> of the specification, fails: the string
  of the digit 1 and a line feed is not empty and has the format of the specification, and
  \<open>extractTraceparentData\<close> returns undefined on it.
\<close>

theorem extractTraceparentData_newline_counterexample:
  "[CHR ''1'', CHR 0x0A] \<noteq> [] \<and> spec_sentry_trace_format [CHR ''1'', CHR 0x0A] \<and>
   extractTraceparentData [CHR ''1'', CHR 0x0A] = None"
proof -
  have "spec_sentry_trace_format [CHR ''1'', CHR 0x0A]"
    unfolding spec_sentry_trace_format_def using newline_skeleton by blast
  moreover have "extractTraceparentData [CHR ''1'', CHR 0x0A] = None"
    by (simp add: extractTraceparentData_def string_match_def TRACEPARENT_REGEXP_def
        skeleton_matches_def opt_group_def opt_char_def blank_char_def hex_char_def
        flag_char_def char_range_def)
  ultimately show ?thesis by simp
qed


section \<open>The header injector: merging into a plain mapping\<close>

lemma starts_with_append: "starts_with (p @ r) p"
  by (induction p) auto

lemma string_includes_self_append: "string_includes (p @ r) p"
proof (cases "p @ r")
  case Nil
  then show ?thesis by simp
next
  case (Cons c cs)
  have "starts_with (p @ r) p" by (rule starts_with_append)
  then have "starts_with (c # cs) p" using Cons by simp
  then have "string_includes (c # cs) p" by simp
  then show ?thesis using Cons by simp
qed

lemma string_includes_prepend: "string_includes b e \<Longrightarrow> string_includes (a @ b) e"
  by (induction a) auto

lemma string_includes_join: "e \<in> set xs \<Longrightarrow> string_includes (join sep xs) e"
proof (induction sep xs rule: join.induct)
  case (1 sep)
  then show ?case by simp
next
  case (2 sep x)
  then show ?case using string_includes_self_append[of e "[]"] by simp
next
  case (3 sep x y ys)
  show ?case
  proof (cases "e = x")
    case True
    then show ?thesis by (simp add: string_includes_self_append)
  next
    case False
    then have "string_includes (join sep (y # ys)) e" using 3 by auto
    then have "string_includes (x @ sep @ join sep (y # ys)) e"
      using string_includes_prepend[of _ e "x @ sep"] by simp
    then show ?thesis by simp
  qed
qed

lemma comma_joined_includes: "e \<in> set entries \<Longrightarrow> value_includes (comma_joined entries) e"
  by (auto simp: comma_joined_def value_includes_def string_includes_join)

text \<open>
  Claim C2. When the headers are a plain mapping \<open>h\<close> (and the request is not a
  \<open>Request\<close> object, whose own headers would be taken), the result is a plain mapping
  that has every key of \<open>h\<close>, with the value of \<open>h\<close> for every key but
  \<open>sentry-trace\<close> and \<open>baggage\<close>. Its \<open>baggage\<close> is made of the entries \<open>h\<close> had
  (the elements of an array, or the one non-empty string) followed by the fragment when
  that is not empty: the entries joined by commas, each entry contained in the joined
  string, and undefined, not the empty string, when there is no entry.
\<close>

theorem addTracingHeaders_plain_baggage_merge:
  assumes hs: "headers options = Some (PlainObject h)"
  shows "\<exists>h' entries.
           addTracingHeadersToFetchRequest u (UrlString target) dsc span options = PlainObject h' \<and>
           dom h \<subseteq> dom h' \<and>
           (\<forall>k. k \<noteq> ''sentry-trace'' \<and> k \<noteq> ''baggage'' \<longrightarrow> h' k = h k) \<and>
           h' ''baggage'' = Some (comma_joined entries) \<and>
           entries =
             (case h ''baggage'' of
                Some (StrArray xs) \<Rightarrow> xs | Some (Str x) \<Rightarrow> if x = [] then [] else [x] | _ \<Rightarrow> [])
             @ (case dynamicSamplingContextToSentryBaggageHeader u dsc of
                  None \<Rightarrow> [] | Some x \<Rightarrow> if x = [] then [] else [x]) \<and>
           (\<forall>e \<in> set entries. value_includes (comma_joined entries) e)"
proof -
  let ?new = "push_if_truthy (dynamicSamplingContextToSentryBaggageHeader u dsc)"
  let ?old = "case h ''baggage'' of
                Some (StrArray xs) \<Rightarrow> xs | Some (Str x) \<Rightarrow> if x = [] then [] else [x] | _ \<Rightarrow> []"
  let ?h' = "h(''sentry-trace'' \<mapsto> Str (toTraceparent span), ''baggage'' \<mapsto> comma_joined (?old @ ?new))"
  have r: "addTracingHeadersToFetchRequest u (UrlString target) dsc span options = PlainObject ?h'"
    using hs
    by (auto simp: addTracingHeadersToFetchRequest_def Let_def comma_joined_def
        split: option.splits header_value.splits)
  have n: "?new = (case dynamicSamplingContextToSentryBaggageHeader u dsc of
                  None \<Rightarrow> [] | Some x \<Rightarrow> if x = [] then [] else [x])"
    by (simp add: push_if_truthy_def split: option.splits)
  have 1: "dom h \<subseteq> dom ?h'" by auto
  have 2: "\<forall>k. k \<noteq> ''sentry-trace'' \<and> k \<noteq> ''baggage'' \<longrightarrow> ?h' k = h k" by simp
  have 3: "?h' ''baggage'' = Some (comma_joined (?old @ ?new))" by simp
  have 4: "\<forall>e \<in> set (?old @ ?new). value_includes (comma_joined (?old @ ?new)) e"
    using comma_joined_includes by blast
  show ?thesis
    apply (rule exI[of _ ?h'], rule exI[of _ "?old @ ?new"])
    using r 1 2 3 4 n by simp
qed

text \<open>The theorem on the mapping \<open>{x: "1", baggage: "a=1"}\<close>.\<close>

theorem addTracingHeaders_plain_baggage_merge_witness:
  "\<exists>h'. addTracingHeadersToFetchRequest sample_utils (UrlString ''/api'') [(''release'', ''1.0'')]
           sample_span
           \<lparr> headers = Some (PlainObject [''x'' \<mapsto> Str ''1'', ''baggage'' \<mapsto> Str ''a=1'']),
             init_method = None \<rparr> = PlainObject h' \<and>
         h' ''x'' = Some (Str ''1'') \<and>
         h' ''baggage'' = Some (Str ''a=1,sentry-release=1.0'')"
proof -
  let ?h = "[''x'' \<mapsto> Str ''1'', ''baggage'' \<mapsto> Str ''a=1'']"
  let ?o = "\<lparr> headers = Some (PlainObject ?h), init_method = None \<rparr>"
  have a: "headers ?o = Some (PlainObject ?h)" by simp
  note t = addTracingHeaders_plain_baggage_merge[OF a,
      of sample_utils "''/api''" "[(''release'', ''1.0'')]" sample_span]
  from t obtain h' entries where
    r: "addTracingHeadersToFetchRequest sample_utils (UrlString ''/api'') [(''release'', ''1.0'')]
          sample_span ?o = PlainObject h'"
    and k: "\<forall>k. k \<noteq> ''sentry-trace'' \<and> k \<noteq> ''baggage'' \<longrightarrow> h' k = ?h k"
    and g: "h' ''baggage'' = Some (comma_joined entries)"
    and e: "entries =
             (case ?h ''baggage'' of
                Some (StrArray xs) \<Rightarrow> xs | Some (Str x) \<Rightarrow> if x = [] then [] else [x] | _ \<Rightarrow> [])
             @ (case dynamicSamplingContextToSentryBaggageHeader sample_utils [(''release'', ''1.0'')] of
                  None \<Rightarrow> [] | Some x \<Rightarrow> if x = [] then [] else [x])"
    by (elim exE conjE) (rule that, assumption+)
  have "entries = [''a=1'', ''sentry-release=1.0'']"
    unfolding e by (simp add: sample_utils_def sample_baggage_header_def sample_baggage_entry_def)
  then have "h' ''baggage'' = Some (Str ''a=1,sentry-release=1.0'')"
    using g by (simp add: comma_joined_def)
  moreover have "h' ''x'' = Some (Str ''1'')" using k by simp
  ultimately show ?thesis using r by blast
qed

lemma any_agrees_with_declared:
  "addTracingHeadersToFetchRequest_any u request dsc span (declared_headers (headers options))
     = Inr (addTracingHeadersToFetchRequest u request dsc span options)"
  by (simp add: addTracingHeadersToFetchRequest_any_def addTracingHeadersToFetchRequest_def
      declared_headers_def js_truthy_def Let_def
      split: fetch_input.splits option.splits headers_init.splits)

lemma any_object_headers:
  "addTracingHeadersToFetchRequest_any u (UrlString target) dsc span (ObjectHeaders hs)
     = Inr (addTracingHeadersToFetchRequest u (UrlString target) dsc span
              \<lparr> headers = Some hs, init_method = None \<rparr>)"
  using any_agrees_with_declared
    [of u "UrlString target" dsc span "\<lparr> headers = Some hs, init_method = None \<rparr>"]
  by (simp add: declared_headers_def)

text \<open>
  Claim C9, as the code has it. When no headers are supplied (the request is not a
  \<open>Request\<close> object and the value of \<open>options.headers\<close> is undefined or another falsy
  value), the function does not throw and returns the mapping of the two keys
  \<open>sentry-trace\<close>, the traceparent of the span, and \<open>baggage\<close>, which is undefined
  when no fragment was serialized and holds the fragment when that is not empty. A
  container of another shape is not degraded to that mapping. A truthy primitive makes the
  function throw a TypeError. An object is handled by its shape as the declared type has
  it, a plain mapping keeping its keys; on a value of the declared type the function never
  throws. The same holds of the function on the declared type alone.
\<close>

theorem addTracingHeaders_unsupplied_or_unsupported:
  "(\<not> js_truthy p \<and> dynamicSamplingContextToSentryBaggageHeader u dsc = None \<longrightarrow>
      addTracingHeadersToFetchRequest_any u (UrlString target) dsc span (PrimitiveHeaders p)
        = Inr (PlainObject [''sentry-trace'' \<mapsto> Str (toTraceparent span),
                            ''baggage'' \<mapsto> Undefined])) \<and>
   (\<not> js_truthy p \<and> dynamicSamplingContextToSentryBaggageHeader u dsc = Some f \<and> f \<noteq> [] \<longrightarrow>
      addTracingHeadersToFetchRequest_any u (UrlString target) dsc span (PrimitiveHeaders p)
        = Inr (PlainObject [''sentry-trace'' \<mapsto> Str (toTraceparent span),
                            ''baggage'' \<mapsto> Str f])) \<and>
   (js_truthy p \<longrightarrow>
      addTracingHeadersToFetchRequest_any u (UrlString target) dsc span (PrimitiveHeaders p)
        = Inl TypeError) \<and>
   addTracingHeadersToFetchRequest_any u (UrlString target) dsc span (ObjectHeaders hs)
     = Inr (addTracingHeadersToFetchRequest u (UrlString target) dsc span
              \<lparr> headers = Some hs, init_method = None \<rparr>) \<and>
   (\<exists>h'. addTracingHeadersToFetchRequest_any u (UrlString target) dsc span
            (ObjectHeaders (PlainObject h)) = Inr (PlainObject h') \<and>
         dom h \<subseteq> dom h' \<and> (\<forall>k. k \<noteq> ''sentry-trace'' \<and> k \<noteq> ''baggage'' \<longrightarrow> h' k = h k)) \<and>
   addTracingHeadersToFetchRequest_any u request dsc span (declared_headers (headers options))
     = Inr (addTracingHeadersToFetchRequest u request dsc span options) \<and>
   (headers options = None \<and> dynamicSamplingContextToSentryBaggageHeader u dsc = None \<longrightarrow>
      addTracingHeadersToFetchRequest u (UrlString target) dsc span options
        = PlainObject [''sentry-trace'' \<mapsto> Str (toTraceparent span),
                       ''baggage'' \<mapsto> Undefined]) \<and>
   (headers options = None \<and> dynamicSamplingContextToSentryBaggageHeader u dsc = Some f \<and>
    f \<noteq> [] \<longrightarrow>
      addTracingHeadersToFetchRequest u (UrlString target) dsc span options
        = PlainObject [''sentry-trace'' \<mapsto> Str (toTraceparent span),
                       ''baggage'' \<mapsto> Str f])"
proof (intro conjI impI)
  show "\<exists>h'. addTracingHeadersToFetchRequest_any u (UrlString target) dsc span
            (ObjectHeaders (PlainObject h)) = Inr (PlainObject h') \<and>
         dom h \<subseteq> dom h' \<and> (\<forall>k. k \<noteq> ''sentry-trace'' \<and> k \<noteq> ''baggage'' \<longrightarrow> h' k = h k)"
  proof -
    let ?new = "(case (case h ''baggage'' of None \<Rightarrow> Undefined | Some v \<Rightarrow> v) of
                       StrArray xs \<Rightarrow> xs
                     | Str x \<Rightarrow> if x \<noteq> [] then [x] else []
                     | Undefined \<Rightarrow> [])
                    @ push_if_truthy (dynamicSamplingContextToSentryBaggageHeader u dsc)"
    let ?h' = "h(''sentry-trace'' \<mapsto> Str (toTraceparent span),
                 ''baggage'' \<mapsto> (if length ?new > 0 then Str (join '','' ?new) else Undefined))"
    have "addTracingHeadersToFetchRequest_any u (UrlString target) dsc span
            (ObjectHeaders (PlainObject h)) = Inr (PlainObject ?h')"
      by (simp add: addTracingHeadersToFetchRequest_any_def Let_def)
    moreover have "dom h \<subseteq> dom ?h'" by auto
    moreover have "\<forall>k. k \<noteq> ''sentry-trace'' \<and> k \<noteq> ''baggage'' \<longrightarrow> ?h' k = h k" by simp
    ultimately show ?thesis by blast
  qed
qed (simp_all add: any_agrees_with_declared any_object_headers,
     simp_all add: addTracingHeadersToFetchRequest_any_def addTracingHeadersToFetchRequest_def
       stored_def Let_def)

text \<open>The theorem on undefined, on null with a fragment, and on the number 5.\<close>

theorem addTracingHeaders_unsupplied_or_unsupported_witness:
  "addTracingHeadersToFetchRequest_any sample_utils (UrlString ''/api'') [] sample_span
     (PrimitiveHeaders PUndefined)
     = Inr (PlainObject [''sentry-trace'' \<mapsto> Str sample_traceparent,
                         ''baggage'' \<mapsto> Undefined]) \<and>
   addTracingHeadersToFetchRequest_any sample_utils (UrlString ''/api'') [(''release'', ''1.0'')]
     sample_span (PrimitiveHeaders PNull)
     = Inr (PlainObject [''sentry-trace'' \<mapsto> Str sample_traceparent,
                         ''baggage'' \<mapsto> Str ''sentry-release=1.0'']) \<and>
   addTracingHeadersToFetchRequest_any sample_utils (UrlString ''/api'') [] sample_span
     (PrimitiveHeaders (PNumber 5))
     = Inl TypeError \<and>
   addTracingHeadersToFetchRequest sample_utils (UrlString ''/api'') [(''release'', ''1.0'')]
     sample_span \<lparr> headers = None, init_method = None \<rparr>
     = PlainObject [''sentry-trace'' \<mapsto> Str sample_traceparent,
                    ''baggage'' \<mapsto> Str ''sentry-release=1.0'']"
proof -
  have f0: "dynamicSamplingContextToSentryBaggageHeader sample_utils [] = None"
    by (simp add: sample_utils_def sample_baggage_header_def)
  have f1: "dynamicSamplingContextToSentryBaggageHeader sample_utils [(''release'', ''1.0'')]
              = Some ''sentry-release=1.0''"
    by (simp add: sample_utils_def sample_baggage_header_def sample_baggage_entry_def)
  have t: "toTraceparent sample_span = sample_traceparent" by (simp add: sample_span_def)
  have j: "\<not> js_truthy PUndefined" "\<not> js_truthy PNull" "js_truthy (PNumber 5)"
    by (simp_all add: js_truthy_def)
  note th = addTracingHeaders_unsupplied_or_unsupported
  from th[where p = PUndefined and u = sample_utils and dsc = "[]" and target = "''/api''"
        and span = sample_span and f = "''sentry-release=1.0''" and hs = "PairArray []"
        and h = Map.empty and request = "UrlString ''/api''"
        and options = "\<lparr> headers = None, init_method = None \<rparr>"] f0 j t
  have 1: "addTracingHeadersToFetchRequest_any sample_utils (UrlString ''/api'') [] sample_span
     (PrimitiveHeaders PUndefined)
     = Inr (PlainObject [''sentry-trace'' \<mapsto> Str sample_traceparent,
                         ''baggage'' \<mapsto> Undefined])"
    by simp
  from th[where p = PNull and u = sample_utils and dsc = "[(''release'', ''1.0'')]"
        and target = "''/api''"
        and span = sample_span and f = "''sentry-release=1.0''" and hs = "PairArray []"
        and h = Map.empty and request = "UrlString ''/api''"
        and options = "\<lparr> headers = None, init_method = None \<rparr>"] f1 j t
  have 2: "addTracingHeadersToFetchRequest_any sample_utils (UrlString ''/api'') [(''release'', ''1.0'')]
     sample_span (PrimitiveHeaders PNull)
     = Inr (PlainObject [''sentry-trace'' \<mapsto> Str sample_traceparent,
                         ''baggage'' \<mapsto> Str ''sentry-release=1.0''])"
    and 4: "addTracingHeadersToFetchRequest sample_utils (UrlString ''/api'') [(''release'', ''1.0'')]
     sample_span \<lparr> headers = None, init_method = None \<rparr>
     = PlainObject [''sentry-trace'' \<mapsto> Str sample_traceparent,
                    ''baggage'' \<mapsto> Str ''sentry-release=1.0'']"
    by simp_all
  from th[where p = "PNumber 5" and u = sample_utils and dsc = "[]" and target = "''/api''"
        and span = sample_span and f = "''sentry-release=1.0''" and hs = "PairArray []"
        and h = Map.empty and request = "UrlString ''/api''"
        and options = "\<lparr> headers = None, init_method = None \<rparr>"] j
  have 3: "addTracingHeadersToFetchRequest_any sample_utils (UrlString ''/api'') [] sample_span
     (PrimitiveHeaders (PNumber 5)) = Inl TypeError"
    by simp
  from 1 2 3 4 show ?thesis by simp
qed

text \<open>
  Claim C9 as stated fails: handed a non-empty string for the headers, a shape that is
  not supported, the function throws a TypeError and returns no mapping.
\<close>

theorem addTracingHeaders_unsupported_shape_counterexample:
  "js_truthy (PString ''x-token'') \<and>
   addTracingHeadersToFetchRequest_any sample_utils (UrlString ''/api'') [] sample_span
     (PrimitiveHeaders (PString ''x-token'')) = Inl TypeError"
  by (simp add: addTracingHeadersToFetchRequest_any_def js_truthy_def Let_def)

text \<open>
  With a fragment that is the empty string, the branch of line 75 stores the empty string
  under \<open>baggage\<close>; the three other branches test the fragment before they use it.
\<close>

lemma addTracingHeaders_empty_fragment:
  "dynamicSamplingContextToSentryBaggageHeader empty_fragment_utils [] = Some [] \<and>
   addTracingHeadersToFetchRequest empty_fragment_utils (UrlString ''/api'') [] sample_span
     \<lparr> headers = None, init_method = None \<rparr> =
   PlainObject [''sentry-trace'' \<mapsto> Str sample_traceparent, ''baggage'' \<mapsto> Str []]"
  by (simp add: addTracingHeadersToFetchRequest_def stored_def empty_fragment_utils_def
      empty_fragment_def sample_span_def)

section \<open>The instrumented fetch\<close>

lemma requests_set_span_status [simp]: "requests (set_span_status i st w) = requests w"
  by (simp add: set_span_status_def)

lemma breadcrumbs_set_span_status [simp]: "breadcrumbs (set_span_status i st w) = breadcrumbs w"
  by (simp add: set_span_status_def)

lemma captured_set_span_status [simp]: "captured (set_span_status i st w) = captured w"
  by (simp add: set_span_status_def)

lemma length_spans_set_span_status [simp]:
  "length (spans (set_span_status i st w)) = length (spans w)"
  by (simp add: set_span_status_def)

lemma requests_addFetchBreadcrumbs [simp]:
  "requests (addFetchBreadcrumbs r m v w) = requests w"
  by (simp add: addFetchBreadcrumbs_def split: outcome.splits)

lemma spans_addFetchBreadcrumbs [simp]:
  "spans (addFetchBreadcrumbs r m v w) = spans w"
  by (simp add: addFetchBreadcrumbs_def split: outcome.splits)

lemma length_breadcrumbs_addFetchBreadcrumbs [simp]:
  "length (breadcrumbs (addFetchBreadcrumbs r m v w)) = Suc (length (breadcrumbs w))"
  by (simp add: addFetchBreadcrumbs_def split: outcome.splits)

text \<open>The effects of one traced call of the platform's fetch.\<close>

lemma traced_network_fetch:
  assumes "t = trace ctx
         (\<lambda>span w1. case network_fetch respond a w1 of
              (Returned fetchResult, w2) \<Rightarrow>
                (Returned fetchResult, setHttpStatus span (response_status fetchResult) w2)
            | (Threw e, w2) \<Rightarrow> (Threw e, w2))
         None w"
  shows "requests (snd t) = requests w @ [a] \<and>
         length (spans (snd t)) = Suc (length (spans w)) \<and>
         breadcrumbs (snd t) = breadcrumbs w"
  unfolding assms
  by (cases "respond a")
     (auto simp: trace_def opened_def network_fetch_def setHttpStatus_def Let_def)

lemma instrumented_effects:
  assumes "\<not> internal_request u args"
    and "w' = snd (instrumentSvelteKitFetch u client (network_fetch respond) args w)"
  shows "requests w' = requests w @ [(fst args, Some (patched_init u client args w))] \<and>
         length (spans w') =
           length (spans w) + (if shouldCreateSpan client (getFetchUrl u args) then 1 else 0) \<and>
         length (breadcrumbs w') =
           length (breadcrumbs w) + (if shouldAddFetchBreadcrumbs client then 1 else 0)"
proof -
  have c: "(string_includes (getFetchUrl u args) ''sentry_key'' \<and> getFetchMethod u args = ''POST'')
             = False"
    using assms(1) unfolding internal_request_def by blast
  show ?thesis
    unfolding assms(2) instrumentSvelteKitFetch_def Let_def
    apply (simp only: c if_False)
    apply (cases "respond (fst args, Some (patched_init u client args w))")
     apply (simp_all add: trace_def opened_def network_fetch_def setHttpStatus_def Let_def)
    done
qed

lemma bypass_passes_through:
  "internal_request u args \<Longrightarrow>
   instrumentSvelteKitFetch u client originalFetch args w = originalFetch args w"
  by (simp add: instrumentSvelteKitFetch_def internal_request_def)


lemma last_request_bypass:
  assumes "internal_request u args"
  shows "snd (instrumentSvelteKitFetch u client (network_fetch respond) args w)
           = w\<lparr> requests := requests w @ [args] \<rparr>"
  using assms by (simp add: bypass_passes_through network_fetch_def)

lemma sent_headers:
  "headers (spread_init (snd (last (requests
       (snd (instrumentSvelteKitFetch u client (network_fetch respond) args w)))))) =
   (if internal_request u args then headers (spread_init (snd args))
    else headers (patched_init u client args w))"
proof (cases "internal_request u args")
  case True
  then show ?thesis by (simp add: last_request_bypass)
next
  case False
  from instrumented_effects[OF False refl, of client respond w]
  have "requests (snd (instrumentSvelteKitFetch u client (network_fetch respond) args w))
          = requests w @ [(fst args, Some (patched_init u client args w))]" by blast
  then show ?thesis using False by (simp add: spread_init_def)
qed

lemma patched_init_unattached:
  "\<not> shouldAttachHeaders client (getFetchUrl u args) \<Longrightarrow>
   patched_init u client args w = spread_init (snd args)"
  by (simp add: patched_init_def Let_def split: option.splits)

lemma patched_init_attached:
  "shouldAttachHeaders client (getFetchUrl u args) \<Longrightarrow>
   shouldCreateSpan client (getFetchUrl u args) \<Longrightarrow>
   scope_span w = Some sp \<Longrightarrow> transaction sp = Some tx \<Longrightarrow>
   headers (patched_init u client args w) =
     Some (addTracingHeadersToFetchRequest u (fst args) (getDynamicSamplingContext tx) sp
             (spread_init (snd args)))"
  by (simp add: patched_init_def Let_def)

lemma shouldAttachHeaders_iff:
  "shouldAttachHeaders client v \<longleftrightarrow>
   (\<exists>opts. browserTracingOptions client = Some opts \<and> traceFetch opts \<and>
      stringMatchesSomePattern v
        (case tracePropagationTargets opts of
           None \<Rightarrow> default_tracePropagationTargets | Some targets \<Rightarrow> targets))"
  by (auto simp: shouldAttachHeaders_def shouldTraceFetch_def configured_targets_def
      split: option.splits)

text \<open>
  What \<open>addTracingHeadersToFetchRequest\<close> returns carries the traceparent of the span
  under \<open>sentry-trace\<close>, and a non-empty fragment under \<open>baggage\<close>, whatever the shape
  of the container it was given.
\<close>

lemma string_includes_self: "string_includes e e"
  using string_includes_self_append[of e "[]"] by simp

lemma entries_of_pairs:
  "(k, v) \<in> set ps \<Longrightarrow> Str v \<in> set (map (Str \<circ> snd) (filter (\<lambda>p. fst p = k) ps))"
  by (induction ps) auto

lemma injector_carries_sentry_trace:
  "Str (toTraceparent span) \<in>
     set (header_entries (addTracingHeadersToFetchRequest u request dsc span options) ''sentry-trace'')"
proof -
  let ?b = "map (Pair BAGGAGE_HEADER_NAME)
              (push_if_truthy (dynamicSamplingContextToSentryBaggageHeader u dsc))"
  have p: "\<And>h. Str (toTraceparent span) \<in>
      set (map (Str \<circ> snd) (filter (\<lambda>p. fst p = ''sentry-trace'')
             ((h @ [(''sentry-trace'', toTraceparent span)]) @ ?b)))"
    by (rule entries_of_pairs) simp
  let ?hs = "case request of
                  RequestObject r \<Rightarrow> Some (HeadersObject (request_headers r))
                | UrlString _ \<Rightarrow> headers options"
  show ?thesis
  proof (cases ?hs)
    case None
    then show ?thesis
      unfolding addTracingHeadersToFetchRequest_def Let_def
      by (simp add: header_entries_def)
  next
    case (Some c)
    show ?thesis
    proof (cases c)
      case (HeadersObject h)
      then show ?thesis
        unfolding addTracingHeadersToFetchRequest_def Let_def
        using Some p[of h] by (simp add: header_entries_def)
    next
      case (PairArray h)
      then show ?thesis
        unfolding addTracingHeadersToFetchRequest_def Let_def
        using Some p[of h] by (simp add: header_entries_def)
    next
      case (PlainObject h)
      then show ?thesis
        unfolding addTracingHeadersToFetchRequest_def Let_def
        using Some by (simp add: header_entries_def)
    qed
  qed
qed

lemma injector_carries_baggage:
  assumes "dynamicSamplingContextToSentryBaggageHeader u dsc = Some f" and "f \<noteq> []"
  shows "some_value_includes
           (header_entries (addTracingHeadersToFetchRequest u request dsc span options) ''baggage'') f"
proof -
  have b: "push_if_truthy (dynamicSamplingContextToSentryBaggageHeader u dsc) = [f]"
    using assms by (simp add: push_if_truthy_def)
  have p: "\<And>h. Str f \<in>
      set (map (Str \<circ> snd) (filter (\<lambda>p. fst p = ''baggage'')
             ((h @ [(''sentry-trace'', toTraceparent span)]) @ [(''baggage'', f)])))"
    by (rule entries_of_pairs) simp
  have q: "\<And>vs. Str f \<in> set vs \<Longrightarrow> some_value_includes vs f"
  proof -
    fix vs assume m: "Str f \<in> set vs"
    have "value_includes (Str f) f" by (simp add: value_includes_def string_includes_self)
    with m show "some_value_includes vs f"
      unfolding some_value_includes_def list_ex_iff by (rule bexI[rotated])
  qed
  have j: "\<And>old. string_includes (join '','' (old @ [f])) f"
    by (rule string_includes_join) simp
  let ?hs = "case request of
                  RequestObject r \<Rightarrow> Some (HeadersObject (request_headers r))
                | UrlString _ \<Rightarrow> headers options"
  show ?thesis
  proof (cases ?hs)
    case None
    then show ?thesis
      unfolding addTracingHeadersToFetchRequest_def Let_def
      using assms
      by (simp add: header_entries_def stored_def some_value_includes_def value_includes_def
          string_includes_self)
  next
    case (Some c)
    show ?thesis
    proof (cases c)
      case (HeadersObject h)
      then show ?thesis
        unfolding addTracingHeadersToFetchRequest_def Let_def
        using Some q[OF p[of h]]
        by (simp add: header_entries_def b BAGGAGE_HEADER_NAME_def)
    next
      case (PairArray h)
      then show ?thesis
        unfolding addTracingHeadersToFetchRequest_def Let_def
        using Some q[OF p[of h]]
        by (simp add: header_entries_def b BAGGAGE_HEADER_NAME_def)
    next
      case (PlainObject h)
      then show ?thesis
        unfolding addTracingHeadersToFetchRequest_def Let_def
        using Some j
        by (simp add: header_entries_def b some_value_includes_def value_includes_def)
    qed
  qed
qed

text \<open>
  Claim C5. For a call of the instrumented fetch whose url is \<open>rawUrl\<close>:
  \<open>shouldAttachHeaders\<close> holds exactly when BrowserTracing is installed with
  \<open>traceFetch\<close> on and the url matches the configured \<open>tracePropagationTargets\<close>, the
  default list when none is configured; the default list matches a url that contains
  \<open>localhost\<close> or starts with a slash. When \<open>shouldAttachHeaders\<close> fails, the request
  sent carries the headers the caller gave and nothing else. When it holds, a span is to
  be created, the call is not an internal one and a transaction is active, the request
  sent carries the headers that \<open>addTracingHeadersToFetchRequest\<close> makes: they hold the
  traceparent of the active span under \<open>sentry-trace\<close> and, when the fragment of the
  transaction is not empty, a \<open>baggage\<close> value that contains it, whether the caller
  gave no headers, a plain mapping, an array of pairs or a \<open>Headers\<close> object. The list
  \<open>["localhost"]\<close> matches \<open>https://localhost/api\<close> and not \<open>https://evil.example\<close>.
\<close>

theorem instrumented_fetch_allow_list:
  "let rawUrl = getFetchUrl u args;
       w' = snd (instrumentSvelteKitFetch u client (network_fetch respond) args w);
       sent = headers (spread_init (snd (last (requests w'))))
   in (shouldAttachHeaders client rawUrl \<longleftrightarrow>
         (\<exists>opts. browserTracingOptions client = Some opts \<and> traceFetch opts \<and>
            stringMatchesSomePattern rawUrl
              (case tracePropagationTargets opts of
                 None \<Rightarrow> default_tracePropagationTargets | Some targets \<Rightarrow> targets))) \<and>
      (\<not> shouldAttachHeaders client rawUrl \<longrightarrow> sent = headers (spread_init (snd args))) \<and>
      (shouldAttachHeaders client rawUrl \<and> shouldCreateSpan client rawUrl \<and>
       \<not> internal_request u args \<and> scope_span w = Some sp \<and> transaction sp = Some tx \<longrightarrow>
         sent = Some (addTracingHeadersToFetchRequest u (fst args)
                        (getDynamicSamplingContext tx) sp (spread_init (snd args))) \<and>
         Str (toTraceparent sp) \<in> set (sent_entries sent ''sentry-trace'') \<and>
         (\<forall>f. dynamicSamplingContextToSentryBaggageHeader u (getDynamicSamplingContext tx) = Some f \<and>
              f \<noteq> [] \<longrightarrow> some_value_includes (sent_entries sent ''baggage'') f)) \<and>
      (stringMatchesSomePattern rawUrl default_tracePropagationTargets \<longleftrightarrow>
         string_includes rawUrl ''localhost'' \<or> starts_with rawUrl ''/'') \<and>
      stringMatchesSomePattern ''https://localhost/api'' [StringPattern ''localhost''] \<and>
      \<not> stringMatchesSomePattern ''https://evil.example'' [StringPattern ''localhost'']"
proof -
  let ?sent = "headers (spread_init (snd (last (requests
         (snd (instrumentSvelteKitFetch u client (network_fetch respond) args w))))))"
  let ?inj = "addTracingHeadersToFetchRequest u (fst args)
                        (getDynamicSamplingContext tx) sp (spread_init (snd args))"
  have 1: "\<not> shouldAttachHeaders client (getFetchUrl u args) \<longrightarrow>
      ?sent = headers (spread_init (snd args))"
    by (simp add: sent_headers patched_init_unattached)
  have 2: "shouldAttachHeaders client (getFetchUrl u args) \<and>
       shouldCreateSpan client (getFetchUrl u args) \<and>
       \<not> internal_request u args \<and> scope_span w = Some sp \<and> transaction sp = Some tx \<longrightarrow>
      ?sent = Some ?inj \<and>
      Str (toTraceparent sp) \<in> set (sent_entries ?sent ''sentry-trace'') \<and>
      (\<forall>f. dynamicSamplingContextToSentryBaggageHeader u (getDynamicSamplingContext tx) = Some f \<and>
              f \<noteq> [] \<longrightarrow> some_value_includes (sent_entries ?sent ''baggage'') f)"
  proof (intro impI)
    assume a: "shouldAttachHeaders client (getFetchUrl u args) \<and>
       shouldCreateSpan client (getFetchUrl u args) \<and>
       \<not> internal_request u args \<and> scope_span w = Some sp \<and> transaction sp = Some tx"
    then have s: "?sent = Some ?inj"
      by (simp add: sent_headers patched_init_attached)
    have t: "Str (toTraceparent sp) \<in> set (sent_entries (Some ?inj) ''sentry-trace'')"
      unfolding sent_entries_def using injector_carries_sentry_trace by simp
    have b: "\<forall>f. dynamicSamplingContextToSentryBaggageHeader u (getDynamicSamplingContext tx) = Some f \<and>
              f \<noteq> [] \<longrightarrow> some_value_includes (sent_entries (Some ?inj) ''baggage'') f"
      unfolding sent_entries_def using injector_carries_baggage by simp
    from s t b show "?sent = Some ?inj \<and>
      Str (toTraceparent sp) \<in> set (sent_entries ?sent ''sentry-trace'') \<and>
      (\<forall>f. dynamicSamplingContextToSentryBaggageHeader u (getDynamicSamplingContext tx) = Some f \<and>
              f \<noteq> [] \<longrightarrow> some_value_includes (sent_entries ?sent ''baggage'') f)"
      by simp
  qed
  have 3: "stringMatchesSomePattern (getFetchUrl u args) default_tracePropagationTargets \<longleftrightarrow>
         string_includes (getFetchUrl u args) ''localhost'' \<or> starts_with (getFetchUrl u args) ''/''"
    by (simp add: stringMatchesSomePattern_def default_tracePropagationTargets_def root_relative_def)
  have 4: "stringMatchesSomePattern ''https://localhost/api'' [StringPattern ''localhost'']"
    by (simp add: stringMatchesSomePattern_def)
  have 5: "\<not> stringMatchesSomePattern ''https://evil.example'' [StringPattern ''localhost'']"
    by (simp add: stringMatchesSomePattern_def)
  show ?thesis
    unfolding Let_def
    using shouldAttachHeaders_iff[of client "getFetchUrl u args"] 1 2 3 4 5
    by (intro conjI) assumption+
qed

text \<open>
  The theorem on the two calls of section 8, with \<open>tracePropagationTargets = ["localhost"]\<close>,
  for a caller that gives no headers, a plain mapping, an array of pairs and a \<open>Headers\<close>
  object.
\<close>

theorem instrumented_fetch_allow_list_witness:
  "headers (spread_init (snd (last (requests (snd
      (instrumentSvelteKitFetch sample_utils localhost_client (network_fetch respond_ok)
         (UrlString ''https://localhost/api'', no_init) sample_world))))))
     = Some (PlainObject [''sentry-trace'' \<mapsto> Str sample_traceparent,
                           ''baggage'' \<mapsto> Str ''sentry-release=1.0'']) \<and>
   headers (spread_init (snd (last (requests (snd
      (instrumentSvelteKitFetch sample_utils localhost_client (network_fetch respond_ok)
         (UrlString ''https://evil.example'', no_init) sample_world))))))
     = None \<and>
   sent_entries (headers (spread_init (snd (last (requests (snd
      (instrumentSvelteKitFetch sample_utils localhost_client (network_fetch respond_ok)
         (UrlString ''https://localhost/api'', plain_init) sample_world)))))))
      ''sentry-trace'' = [Str sample_traceparent] \<and>
   sent_entries (headers (spread_init (snd (last (requests (snd
      (instrumentSvelteKitFetch sample_utils localhost_client (network_fetch respond_ok)
         (UrlString ''https://localhost/api'', plain_init) sample_world)))))))
      ''baggage'' = [Str ''a=1,sentry-release=1.0''] \<and>
   sent_entries (headers (spread_init (snd (last (requests (snd
      (instrumentSvelteKitFetch sample_utils localhost_client (network_fetch respond_ok)
         (UrlString ''https://localhost/api'', plain_init) sample_world)))))))
      ''x'' = [Str ''1''] \<and>
   headers (spread_init (snd (last (requests (snd
      (instrumentSvelteKitFetch sample_utils localhost_client (network_fetch respond_ok)
         (UrlString ''https://localhost/api'', pairs_init) sample_world))))))
     = Some (PairArray [(''x'', ''1''), (''sentry-trace'', sample_traceparent),
                        (''baggage'', ''sentry-release=1.0'')]) \<and>
   headers (spread_init (snd (last (requests (snd
      (instrumentSvelteKitFetch sample_utils localhost_client (network_fetch respond_ok)
         (UrlString ''https://localhost/api'', headers_object_init) sample_world))))))
     = Some (HeadersObject [(''x'', ''1''), (''sentry-trace'', sample_traceparent),
                            (''baggage'', ''sentry-release=1.0'')]) \<and>
   headers (spread_init (snd (last (requests (snd
      (instrumentSvelteKitFetch sample_utils localhost_client (network_fetch respond_ok)
         (UrlString ''https://evil.example'', pairs_init) sample_world))))))
     = Some (PairArray [(''x'', ''1'')])"
proof -
  have u1: "\<And>init. getFetchUrl sample_utils (UrlString ''https://localhost/api'', init)
               = ''https://localhost/api''"
    and u2: "\<And>init. getFetchUrl sample_utils (UrlString ''https://evil.example'', init)
               = ''https://evil.example''"
    by (simp_all add: sample_utils_def sample_fetch_url_def)
  have a1: "shouldAttachHeaders localhost_client ''https://localhost/api''"
    by (simp add: shouldAttachHeaders_def shouldTraceFetch_def configured_targets_def
        localhost_client_def stringMatchesSomePattern_def)
  have a2: "\<not> shouldAttachHeaders localhost_client ''https://evil.example''"
    by (simp add: shouldAttachHeaders_def shouldTraceFetch_def configured_targets_def
        localhost_client_def stringMatchesSomePattern_def)
  have c1: "shouldCreateSpan localhost_client ''https://localhost/api''"
    by (simp add: shouldCreateSpan_def shouldTraceFetch_def localhost_client_def)
  have i1: "\<And>init. \<not> internal_request sample_utils (UrlString ''https://localhost/api'', init)"
    by (simp add: internal_request_def u1)
  have s: "scope_span sample_world = Some sample_span"
    "transaction sample_span = Some \<lparr> getDynamicSamplingContext = [(''release'', ''1.0'')] \<rparr>"
    by (simp_all add: sample_world_def sample_span_def)
  have sent: "headers (spread_init (snd (last (requests (snd
      (instrumentSvelteKitFetch sample_utils localhost_client (network_fetch respond_ok)
         (UrlString ''https://localhost/api'', init) sample_world))))))
     = Some (addTracingHeadersToFetchRequest sample_utils (UrlString ''https://localhost/api'')
               [(''release'', ''1.0'')] sample_span (spread_init init))" for init
    using instrumented_fetch_allow_list
      [of sample_utils "(UrlString ''https://localhost/api'', init)" localhost_client
        respond_ok sample_world sample_span "\<lparr> getDynamicSamplingContext = [(''release'', ''1.0'')] \<rparr>"]
    unfolding Let_def u1 using a1 c1 i1 s by simp
  have unsent: "headers (spread_init (snd (last (requests (snd
      (instrumentSvelteKitFetch sample_utils localhost_client (network_fetch respond_ok)
         (UrlString ''https://evil.example'', init) sample_world))))))
     = headers (spread_init init)" for init
    using instrumented_fetch_allow_list
      [of sample_utils "(UrlString ''https://evil.example'', init)" localhost_client
        respond_ok sample_world sample_span "\<lparr> getDynamicSamplingContext = [(''release'', ''1.0'')] \<rparr>"]
    unfolding Let_def u2 using a2 by simp
  note d = addTracingHeadersToFetchRequest_def spread_init_def stored_def push_if_truthy_def
    sample_utils_def sample_baggage_header_def sample_baggage_entry_def sample_span_def
    BAGGAGE_HEADER_NAME_def
  have 1: "addTracingHeadersToFetchRequest sample_utils (UrlString ''https://localhost/api'')
             [(''release'', ''1.0'')] sample_span (spread_init no_init)
           = PlainObject [''sentry-trace'' \<mapsto> Str sample_traceparent,
                           ''baggage'' \<mapsto> Str ''sentry-release=1.0'']"
    by (simp add: d no_init_def)
  have 2: "headers (spread_init no_init) = None"
    by (simp add: spread_init_def no_init_def)
  let ?p = "addTracingHeadersToFetchRequest sample_utils (UrlString ''https://localhost/api'')
             [(''release'', ''1.0'')] sample_span (spread_init plain_init)"
  have 3: "sent_entries (Some ?p) ''sentry-trace'' = [Str sample_traceparent]"
    "sent_entries (Some ?p) ''baggage'' = [Str ''a=1,sentry-release=1.0'']"
    "sent_entries (Some ?p) ''x'' = [Str ''1'']"
    by (simp_all add: d plain_init_def sent_entries_def header_entries_def)
  have 4: "addTracingHeadersToFetchRequest sample_utils (UrlString ''https://localhost/api'')
             [(''release'', ''1.0'')] sample_span (spread_init pairs_init)
           = PairArray [(''x'', ''1''), (''sentry-trace'', sample_traceparent),
                        (''baggage'', ''sentry-release=1.0'')]"
    by (simp add: d pairs_init_def)
  have 5: "addTracingHeadersToFetchRequest sample_utils (UrlString ''https://localhost/api'')
             [(''release'', ''1.0'')] sample_span (spread_init headers_object_init)
           = HeadersObject [(''x'', ''1''), (''sentry-trace'', sample_traceparent),
                        (''baggage'', ''sentry-release=1.0'')]"
    by (simp add: d headers_object_init_def)
  have 6: "headers (spread_init pairs_init) = Some (PairArray [(''x'', ''1'')])"
    by (simp add: spread_init_def pairs_init_def)
  show ?thesis
    unfolding sent unsent 1 2 4 5 6 using 3 by simp
qed

text \<open>
  Claim C6. A call whose raw url contains the marker \<open>sentry_key\<close> and whose method is
  \<open>POST\<close> is the call of the original fetch on the arguments as they came. With the
  fetch of the platform its only effect is that request, sent with the caller's init: no
  span is opened, no header is injected, no breadcrumb is recorded. Every other call
  takes the instrumented path: the original fetch receives the input with the patched
  init, a span is opened exactly when \<open>shouldCreateSpan\<close> holds for the url, and a
  breadcrumb is recorded exactly when the fetch breadcrumbs are on.
\<close>

theorem internal_requests_bypass:
  "(internal_request u args \<longrightarrow>
      instrumentSvelteKitFetch u client originalFetch args w = originalFetch args w \<and>
      snd (instrumentSvelteKitFetch u client (network_fetch respond) args w)
        = w\<lparr> requests := requests w @ [args] \<rparr>) \<and>
   (\<not> internal_request u args \<longrightarrow>
      (let w' = snd (instrumentSvelteKitFetch u client (network_fetch respond) args w)
       in requests w' = requests w @ [(fst args, Some (patched_init u client args w))] \<and>
          length (spans w') =
            length (spans w) + (if shouldCreateSpan client (getFetchUrl u args) then 1 else 0) \<and>
          length (breadcrumbs w') =
            length (breadcrumbs w) + (if shouldAddFetchBreadcrumbs client then 1 else 0)))"
  unfolding Let_def
  using bypass_passes_through[of u args client originalFetch w]
    last_request_bypass[of u args client respond w]
    instrumented_effects[OF _ refl, of u args client respond w]
  by blast

text \<open>The theorem on a POST to the ingestion endpoint and on a POST to
  \<open>https://localhost/api\<close>.\<close>

theorem internal_requests_bypass_witness:
  "snd (instrumentSvelteKitFetch sample_utils localhost_client (network_fetch respond_ok)
          (UrlString ''https://o1.ingest.sentry.io/api/1/envelope/?sentry_key=abc'', post_init)
          sample_world)
     = sample_world\<lparr> requests :=
         [(UrlString ''https://o1.ingest.sentry.io/api/1/envelope/?sentry_key=abc'', post_init)] \<rparr> \<and>
   length (spans (snd (instrumentSvelteKitFetch sample_utils localhost_client
          (network_fetch respond_ok) (UrlString ''https://localhost/api'', post_init) sample_world)))
     = 1 \<and>
   length (breadcrumbs (snd (instrumentSvelteKitFetch sample_utils localhost_client
          (network_fetch respond_ok) (UrlString ''https://localhost/api'', post_init) sample_world)))
     = 1"
proof -
  have i1: "internal_request sample_utils
      (UrlString ''https://o1.ingest.sentry.io/api/1/envelope/?sentry_key=abc'', post_init)"
    by (simp add: internal_request_def sample_utils_def sample_fetch_url_def
        sample_fetch_method_def post_init_def)
  have i2: "\<not> internal_request sample_utils (UrlString ''https://localhost/api'', post_init)"
    by (simp add: internal_request_def sample_utils_def sample_fetch_url_def)
  have c: "shouldCreateSpan localhost_client
              (getFetchUrl sample_utils (UrlString ''https://localhost/api'', post_init))"
    "shouldAddFetchBreadcrumbs localhost_client"
    by (simp_all add: shouldCreateSpan_def shouldTraceFetch_def shouldAddFetchBreadcrumbs_def
        localhost_client_def)
  have e: "requests sample_world = []" "spans sample_world = []" "breadcrumbs sample_world = []"
    by (simp_all add: sample_world_def)
  from internal_requests_bypass
    [of sample_utils "(UrlString ''https://o1.ingest.sentry.io/api/1/envelope/?sentry_key=abc'', post_init)"
        localhost_client "network_fetch respond_ok" sample_world respond_ok] i1
  have 1: "snd (instrumentSvelteKitFetch sample_utils localhost_client (network_fetch respond_ok)
          (UrlString ''https://o1.ingest.sentry.io/api/1/envelope/?sentry_key=abc'', post_init)
          sample_world)
     = sample_world\<lparr> requests :=
         [(UrlString ''https://o1.ingest.sentry.io/api/1/envelope/?sentry_key=abc'', post_init)] \<rparr>"
    using e by (simp add: network_fetch_def)
  from internal_requests_bypass
    [of sample_utils "(UrlString ''https://localhost/api'', post_init)"
        localhost_client "network_fetch respond_ok" sample_world respond_ok] i2
  have 2: "length (spans (snd (instrumentSvelteKitFetch sample_utils localhost_client
          (network_fetch respond_ok) (UrlString ''https://localhost/api'', post_init) sample_world)))
     = 1 \<and>
   length (breadcrumbs (snd (instrumentSvelteKitFetch sample_utils localhost_client
          (network_fetch respond_ok) (UrlString ''https://localhost/api'', post_init) sample_world)))
     = 1"
    unfolding Let_def using c e by simp
  from 1 2 show ?thesis by simp
qed

section \<open>Errors of the wrapped callbacks\<close>

lemma captured_sendErrorToSentry_handle:
  "sendErrorToSentry_handle e w =
     (objectify e,
      w\<lparr> captured := captured w @
          [\<lparr> exception = objectify e,
              mechanism = Some \<lparr> mechanism_type = ''sveltekit'', handled = False,
                                 data_function = ''handle'' \<rparr> \<rparr>] \<rparr>)"
  by (simp add: sendErrorToSentry_handle_def captureException_def addExceptionMechanism_def Let_def)

lemma captured_sendErrorToSentry_load:
  "sendErrorToSentry_load e w =
     (objectify e,
      w\<lparr> captured := captured w @
          [\<lparr> exception = objectify e,
              mechanism = Some \<lparr> mechanism_type = ''sveltekit'', handled = False,
                                 data_function = ''load'' \<rparr> \<rparr>] \<rparr>)"
  by (simp add: sendErrorToSentry_load_def captureException_def addExceptionMechanism_def Let_def)

text \<open>
  Claim C4. When the resolver that \<open>sentryHandle\<close> wraps, or the load function that
  \<open>wrapLoadWithSentry\<close> wraps, throws a value \<open>e\<close>, the wrapper throws \<open>objectify e\<close>
  and reports exactly one exception more than the callback left: \<open>objectify e\<close>, with the
  mechanism of type \<open>sveltekit\<close>, \<open>handled: false\<close> and the function \<open>handle\<close> for the
  one, \<open>load\<close> for the other. An object is objectified to itself, a primitive to its
  wrapper object.
\<close>

theorem wrappers_capture_and_rethrow:
  "(resolve event (opened (sentryHandle_context u event) w) = (Threw e, w2) \<longrightarrow>
      fst (sentryHandle u event resolve w) = Threw (objectify e) \<and>
      captured (snd (sentryHandle u event resolve w)) =
        captured w2 @
        [\<lparr> exception = objectify e,
            mechanism = Some \<lparr> mechanism_type = ''sveltekit'', handled = False,
                               data_function = ''handle'' \<rparr> \<rparr>]) \<and>
   (origLoad (levent\<lparr> load_fetch := instrumentSvelteKitFetch u client (load_fetch levent) \<rparr>)
        (opened (wrapLoadWithSentry_context levent) w) = (Threw e, w2) \<longrightarrow>
      fst (wrapLoadWithSentry u client origLoad levent w) = Threw (objectify e) \<and>
      captured (snd (wrapLoadWithSentry u client origLoad levent w)) =
        captured w2 @
        [\<lparr> exception = objectify e,
            mechanism = Some \<lparr> mechanism_type = ''sveltekit'', handled = False,
                               data_function = ''load'' \<rparr> \<rparr>]) \<and>
   objectify (Object r) = Object r \<and> objectify (Wrapper p) = Wrapper p \<and>
   objectify (Primitive p) = Wrapper p"
proof (intro conjI impI)
  assume a: "resolve event (opened (sentryHandle_context u event) w) = (Threw e, w2)"
  then show "fst (sentryHandle u event resolve w) = Threw (objectify e)"
    by (simp add: sentryHandle_def trace_def Let_def captured_sendErrorToSentry_handle)
  from a show "captured (snd (sentryHandle u event resolve w)) =
        captured w2 @
        [\<lparr> exception = objectify e,
            mechanism = Some \<lparr> mechanism_type = ''sveltekit'', handled = False,
                               data_function = ''handle'' \<rparr> \<rparr>]"
    by (simp add: sentryHandle_def trace_def Let_def captured_sendErrorToSentry_handle)
next
  assume a: "origLoad (levent\<lparr> load_fetch := instrumentSvelteKitFetch u client (load_fetch levent) \<rparr>)
        (opened (wrapLoadWithSentry_context levent) w) = (Threw e, w2)"
  then show "fst (wrapLoadWithSentry u client origLoad levent w) = Threw (objectify e)"
    by (simp add: wrapLoadWithSentry_def trace_def Let_def captured_sendErrorToSentry_load)
  from a show "captured (snd (wrapLoadWithSentry u client origLoad levent w)) =
        captured w2 @
        [\<lparr> exception = objectify e,
            mechanism = Some \<lparr> mechanism_type = ''sveltekit'', handled = False,
                               data_function = ''load'' \<rparr> \<rparr>]"
    by (simp add: wrapLoadWithSentry_def trace_def Let_def captured_sendErrorToSentry_load)
qed (simp_all add: objectify_def)

text \<open>The theorem on a resolver that throws an object and a load function that throws
  a string.\<close>

theorem wrappers_capture_and_rethrow_witness:
  "fst (sentryHandle sample_utils continued_event resolve_throws_object sample_world)
     = Threw (Object 1) \<and>
   captured (snd (sentryHandle sample_utils continued_event resolve_throws_object sample_world))
     = [\<lparr> exception = Object 1,
          mechanism = Some \<lparr> mechanism_type = ''sveltekit'', handled = False,
                             data_function = ''handle'' \<rparr> \<rparr>] \<and>
   fst (wrapLoadWithSentry sample_utils localhost_client load_throws_string sample_load_event
          sample_world)
     = Threw (Wrapper (PString ''boom'')) \<and>
   captured (snd (wrapLoadWithSentry sample_utils localhost_client load_throws_string
          sample_load_event sample_world))
     = [\<lparr> exception = Wrapper (PString ''boom''),
          mechanism = Some \<lparr> mechanism_type = ''sveltekit'', handled = False,
                             data_function = ''load'' \<rparr> \<rparr>]"
proof -
  let ?w1 = "opened (sentryHandle_context sample_utils continued_event) sample_world"
  let ?w2 = "opened (wrapLoadWithSentry_context sample_load_event) sample_world"
  let ?le = "sample_load_event\<lparr> load_fetch :=
      instrumentSvelteKitFetch sample_utils localhost_client (load_fetch sample_load_event) \<rparr>"
  have a: "resolve_throws_object continued_event ?w1 = (Threw (Object 1), ?w1)"
    by (simp add: resolve_throws_object_def)
  have b: "load_throws_string ?le ?w2 = (Threw (Primitive (PString ''boom'')), ?w2)"
    by (simp add: load_throws_string_def)
  have c: "captured ?w1 = []" "captured ?w2 = []"
    by (simp_all add: opened_def sample_world_def)
  from wrappers_capture_and_rethrow
    [where resolve = resolve_throws_object and event = continued_event and u = sample_utils
       and w = sample_world and e = "Object 1" and ?w2.0 = ?w1
       and origLoad = load_throws_string and levent = sample_load_event
       and client = localhost_client and r = 1 and p = PNull] a c
  have 1: "fst (sentryHandle sample_utils continued_event resolve_throws_object sample_world)
     = Threw (Object 1) \<and>
   captured (snd (sentryHandle sample_utils continued_event resolve_throws_object sample_world))
     = [\<lparr> exception = Object 1,
          mechanism = Some \<lparr> mechanism_type = ''sveltekit'', handled = False,
                             data_function = ''handle'' \<rparr> \<rparr>]"
    by (simp add: objectify_def)
  from wrappers_capture_and_rethrow
    [where resolve = resolve_throws_object and event = continued_event and u = sample_utils
       and w = sample_world and e = "Primitive (PString ''boom'')" and ?w2.0 = ?w2
       and origLoad = load_throws_string and levent = sample_load_event
       and client = localhost_client and r = 1 and p = PNull] b c
  have 2: "fst (wrapLoadWithSentry sample_utils localhost_client load_throws_string sample_load_event
          sample_world)
     = Threw (Wrapper (PString ''boom'')) \<and>
   captured (snd (wrapLoadWithSentry sample_utils localhost_client load_throws_string
          sample_load_event sample_world))
     = [\<lparr> exception = Wrapper (PString ''boom''),
          mechanism = Some \<lparr> mechanism_type = ''sveltekit'', handled = False,
                             data_function = ''load'' \<rparr> \<rparr>]"
    by (simp add: objectify_def)
  from 1 2 show ?thesis by simp
qed

section \<open>The contexts of the spans\<close>

text \<open>
  Claim C7, at a request that matched no route: its route id is null and its path is
  \<open>/nowhere\<close>. The context that \<open>sentryHandle\<close> builds names the transaction
  \<open>GET null\<close>, with the source \<open>route\<close>: there is no fallback to the path.
\<close>

theorem sentryHandle_unmatched_route_name:
  "event_route_id unmatched_event = None \<and>
   event_url_pathname unmatched_event = ''/nowhere'' \<and>
   name (sentryHandle_context sample_utils unmatched_event) = ''GET null'' \<and>
   metadata (sentryHandle_context sample_utils unmatched_event)
     = Some \<lparr> source = ''route'', dynamicSamplingContext = Some [(''release'', ''1.0'')] \<rparr>"
  by (simp add: sentryHandle_context_def unmatched_event_def template_string_def Let_def
      sentryHandle_traceparentData_def fresh_headers_def sample_utils_def sample_baggage_parse_def)

text \<open>
  Claim C8, as the code has it. The context of the span that \<open>wrapLoadWithSentry\<close> opens
  is named after the route id when that is a non-empty string, after the pathname of the
  url otherwise, and its operation is \<open>function.sveltekit.load\<close>. That context is the
  one of the span opened around the call: around a load function that returns, the
  wrapper adds this one span.
\<close>

theorem wrapLoadWithSentry_span_name_op:
  "name (wrapLoadWithSentry_context event) =
     (case load_route_id event of
        None \<Rightarrow> load_url_pathname event
      | Some routeId \<Rightarrow> if routeId = [] then load_url_pathname event else routeId) \<and>
   op (wrapLoadWithSentry_context event) = ''function.sveltekit.load'' \<and>
   wrapLoadWithSentry u client (\<lambda>patchedEvent w1. (Returned v, w1)) event w
     = (Returned v,
        w\<lparr> spans := spans w @
            [\<lparr> span_context = wrapLoadWithSentry_context event,
                span_status = ContextStatus (Some ''ok'') \<rparr>] \<rparr>)"
  by (simp add: wrapLoadWithSentry_context_def wrapLoadWithSentry_def trace_def opened_def Let_def
      split: option.splits)

text \<open>The theorem on the load event of the route \<open>/blog/[slug]\<close>.\<close>

theorem wrapLoadWithSentry_span_name_op_witness:
  "name (wrapLoadWithSentry_context sample_load_event) = ''/blog/[slug]'' \<and>
   op (wrapLoadWithSentry_context sample_load_event) = ''function.sveltekit.load''"
  using wrapLoadWithSentry_span_name_op
    [where event = sample_load_event and u = sample_utils and client = localhost_client
       and v = "()" and w = sample_world]
  by (simp add: sample_load_event_def)

text \<open>
  Claim C8 as stated fails: on the load event of the route \<open>/blog/[slug]\<close> the span is
  named after the route, and its operation is not \<open>function.load\<close>.
\<close>

theorem wrapLoadWithSentry_op_counterexample:
  "name (wrapLoadWithSentry_context sample_load_event) = ''/blog/[slug]'' \<and>
   op (wrapLoadWithSentry_context sample_load_event) \<noteq> ''function.load''"
  by (simp add: wrapLoadWithSentry_context_def sample_load_event_def Let_def)

lemma extractTraceparentData_empty: "extractTraceparentData [] = None"
  by (simp add: extractTraceparentData_def split: option.splits)

text \<open>
  Claim C10. When the \<open>sentry-trace\<close> header of the request parses to traceparent data
  and the baggage header yields no dynamic sampling context, the metadata of the context
  that \<open>sentryHandle\<close> builds has the empty mapping as its dynamic sampling context. When
  there is no traceparent data (no header, or one that does not parse), the metadata has
  what the baggage header yields, absent or not, as it is. That context is the one of the
  transaction opened: around a resolver that returns, the wrapper adds this one span.
\<close>

theorem sentryHandle_dynamicSamplingContext:
  "(event_request_headers_get event ''sentry-trace'' = Some h \<and>
    extractTraceparentData h = Some d \<and>
    baggageHeaderToDynamicSamplingContext u (event_request_headers_get event ''baggage'') = None \<longrightarrow>
      metadata (sentryHandle_context u event)
        = Some \<lparr> source = ''route'', dynamicSamplingContext = Some [] \<rparr>) \<and>
   (event_request_headers_get event ''sentry-trace'' = None \<or>
    (event_request_headers_get event ''sentry-trace'' = Some h \<and> extractTraceparentData h = None) \<longrightarrow>
      metadata (sentryHandle_context u event)
        = Some \<lparr> source = ''route'',
                  dynamicSamplingContext =
                    baggageHeaderToDynamicSamplingContext u
                      (event_request_headers_get event ''baggage'') \<rparr>) \<and>
   sentryHandle u event (\<lambda>ev w1. (Returned res, w1)) w
     = (Returned res,
        w\<lparr> spans := spans w @
            [\<lparr> span_context = sentryHandle_context u event,
                span_status = HttpStatus (response_status res) \<rparr>] \<rparr>)"
proof (intro conjI impI)
  assume a: "event_request_headers_get event ''sentry-trace'' = Some h \<and>
    extractTraceparentData h = Some d \<and>
    baggageHeaderToDynamicSamplingContext u (event_request_headers_get event ''baggage'') = None"
  then have "h \<noteq> []" using extractTraceparentData_empty by auto
  then have "sentryHandle_traceparentData event = Some d"
    using a by (simp add: sentryHandle_traceparentData_def)
  then show "metadata (sentryHandle_context u event)
        = Some \<lparr> source = ''route'', dynamicSamplingContext = Some [] \<rparr>"
    using a by (simp add: sentryHandle_context_def Let_def)
next
  assume "event_request_headers_get event ''sentry-trace'' = None \<or>
    (event_request_headers_get event ''sentry-trace'' = Some h \<and> extractTraceparentData h = None)"
  then have "sentryHandle_traceparentData event = None"
    by (auto simp: sentryHandle_traceparentData_def)
  then show "metadata (sentryHandle_context u event)
        = Some \<lparr> source = ''route'',
                  dynamicSamplingContext =
                    baggageHeaderToDynamicSamplingContext u
                      (event_request_headers_get event ''baggage'') \<rparr>"
    by (simp add: sentryHandle_context_def Let_def)
next
  show "sentryHandle u event (\<lambda>ev w1. (Returned res, w1)) w
     = (Returned res,
        w\<lparr> spans := spans w @
            [\<lparr> span_context = sentryHandle_context u event,
                span_status = HttpStatus (response_status res) \<rparr>] \<rparr>)"
    by (simp add: sentryHandle_def trace_def opened_def Let_def setHttpStatus_def
        set_span_status_def)
qed

lemma sample_traceparent_data:
  "extractTraceparentData sample_traceparent =
     Some \<lparr> traceId = Some ''0123456789abcdef0123456789abcdef'', parentSampled = Some True,
            parentSpanId = Some ''aaaabbbbccccdddd'' \<rparr>"
  by (simp add: sample_traceparent_def extractTraceparentData_def string_match_def
      TRACEPARENT_REGEXP_def skeleton_matches_def opt_group_def opt_char_def blank_char_def
      hex_char_def flag_char_def char_range_def)

text \<open>The theorem on a request that continues a trace without baggage, and on a request
  with a baggage header only.\<close>

theorem sentryHandle_dynamicSamplingContext_witness:
  "metadata (sentryHandle_context sample_utils continued_event)
     = Some \<lparr> source = ''route'', dynamicSamplingContext = Some [] \<rparr> \<and>
   metadata (sentryHandle_context sample_utils fresh_event)
     = Some \<lparr> source = ''route'', dynamicSamplingContext = Some [(''release'', ''1.0'')] \<rparr>"
proof -
  have a: "event_request_headers_get continued_event ''sentry-trace'' = Some sample_traceparent"
    "event_request_headers_get continued_event ''baggage'' = None"
    by (simp_all add: continued_event_def continued_headers_def)
  have b: "baggageHeaderToDynamicSamplingContext sample_utils None = None"
    by (simp add: sample_utils_def sample_baggage_parse_def)
  have c: "event_request_headers_get fresh_event ''sentry-trace'' = None"
    "event_request_headers_get fresh_event ''baggage'' = Some ''sentry-release=1.0''"
    by (simp_all add: fresh_event_def fresh_headers_def)
  have d: "baggageHeaderToDynamicSamplingContext sample_utils (Some ''sentry-release=1.0'')
             = Some [(''release'', ''1.0'')]"
    by (simp add: sample_utils_def sample_baggage_parse_def)
  from sentryHandle_dynamicSamplingContext
    [where event = continued_event and h = sample_traceparent and u = sample_utils
       and d = "\<lparr> traceId = Some ''0123456789abcdef0123456789abcdef'',
                   parentSampled = Some True, parentSpanId = Some ''aaaabbbbccccdddd'' \<rparr>"
       and res = "\<lparr> response_status = 200 \<rparr>" and w = sample_world]
    a b sample_traceparent_data
  have 1: "metadata (sentryHandle_context sample_utils continued_event)
     = Some \<lparr> source = ''route'', dynamicSamplingContext = Some [] \<rparr>"
    by simp
  from sentryHandle_dynamicSamplingContext
    [where event = fresh_event and h = sample_traceparent and u = sample_utils
       and d = "\<lparr> traceId = None, parentSampled = None, parentSpanId = None \<rparr>"
       and res = "\<lparr> response_status = 200 \<rparr>" and w = sample_world]
    c d
  have 2: "metadata (sentryHandle_context sample_utils fresh_event)
     = Some \<lparr> source = ''route'', dynamicSamplingContext = Some [(''release'', ''1.0'')] \<rparr>"
    by simp
  from 1 2 show ?thesis by simp
qed

end
